theory Spec2Isabelle
  imports Complex_Main
begin

section \<open>The financial model engine of src/src/App.jsx\<close>

text \<open>
  The engine is the pair of JavaScript functions \<^verbatim>\<open>runFinancialModel\<close> and
  \<^verbatim>\<open>runSensitivity\<close>. JavaScript numbers are IEEE doubles; they are embedded here as
  mathematical reals, so every statement below is about the formulas the code evaluates
  and not about rounding. The embedding agrees with the code wherever the code's
  intermediate values are finite numbers: \<^verbatim>\<open>Math.log(LR)\<close> needs \<open>0 < LR\<close>, and the
  discount factor \<^verbatim>\<open>Math.pow(1 + r_disc / 100, y)\<close> must not be zero.

  \<^item> \<^verbatim>\<open>Math.pow(b, y)\<close> with the loop index \<open>y\<close> as exponent is \<open>b ^ y\<close>;
  \<^item> \<^verbatim>\<open>Math.pow(n, lr_exp)\<close> and \<^verbatim>\<open>Math.pow(1 + r_monthly, -n_months)\<close> have a positive
    base and a real exponent: \<open>powr\<close>;
  \<^item> \<^verbatim>\<open>null\<close> is \<open>None\<close>;
  \<^item> reading a property of \<^verbatim>\<open>undefined\<close> throws: \<open>Inl TypeError\<close>.
\<close>

subsection \<open>Data\<close>

text \<open>The \<^verbatim>\<open>inputs\<close> object, destructured at lines 28-39 (and \<^verbatim>\<open>C_site\<close>, which the
  engine never reads).\<close>

record inputs =
  P_elec :: real
  P_therm :: real
  f_avail :: real
  F_tpd :: real
  N_units :: real
  R_power :: real
  f_power_util :: real
  r_power :: real
  R_therm :: real
  f_therm_util :: real
  r_therm :: real
  R_tipping :: real
  W_tpy :: real
  r_tipping :: real
  CC_methane :: real
  CC_fuel :: real
  CC_emissions :: real
  P_carbon :: real
  r_carbon :: real
  C_cust_power :: real
  C_cust_therm :: real
  C_cust_waste :: real
  C_biochp :: real
  C_enexfuel :: real
  C_install :: real
  C_site :: real
  R_maint :: real
  C_fuel_process :: real
  C_insurance :: real
  C_acct_mgmt :: real
  r_maint :: real
  r_fuel :: real
  f_equity :: real
  r_debt :: real
  T_loan :: real
  f_loan_fees :: real
  r_disc :: real
  T_project :: real
  Y_start :: real
  LR :: real
  units_per_year :: real

text \<open>The object pushed to \<^verbatim>\<open>years\<close> at lines 138-141. The source's field \<^verbatim>\<open>y\<close> is
  \<open>y_index\<close> here, \<open>y\<close> being the loop variable.\<close>

record year_record =
  y_index :: nat
  year :: real
  N_deployed :: real
  R_pwr :: real
  R_thrm :: real
  R_tip :: real
  R_crb :: real
  R_total :: real
  OPEX :: real
  EBITDA :: real
  DS :: real
  DSCR :: "real option"
  capex_year :: real
  CF :: real
  DCF :: real
  cumNPV :: real

datatype error = TypeError

text \<open>The three messages pushed to \<^verbatim>\<open>warnings\<close> (lines 178-180): negative NPV (the
  message quotes \<^verbatim>\<open>r_disc\<close>), DSCR below 1.0 and DSCR below 1.25.\<close>

datatype warning = NPV_negative real | DSCR_below_1 | DSCR_below_1_25

subsection \<open>Capital cost and debt service (lines 63-82)\<close>

text \<open>Lines 64-68: \<^verbatim>\<open>for (let n = 1; n <= N_units; n++)\<close> pushes one cost per \<open>n\<close>.
  \<open>ln\<close> and \<open>powr\<close> are the exact functions, where \<^verbatim>\<open>Math.log\<close> and \<^verbatim>\<open>Math.pow\<close> return
  rounded doubles: an identity of the reals such as \<open>2 powr (ln LR / ln 2) = LR\<close> is a fact
  about this list and not about the doubles of the code.\<close>

definition unit_capex_loop :: "real \<Rightarrow> real \<Rightarrow> real \<Rightarrow> real list" where
  "unit_capex_loop CAPEX_unit1 LR' N_units' =
     (let lr_exp = ln LR' / ln 2
      in map (\<lambda>n. CAPEX_unit1 * real n powr lr_exp) [1..<nat \<lfloor>N_units'\<rfloor> + 1])"

text \<open>Lines 74-82.\<close>

definition debt_service :: "real \<Rightarrow> real \<Rightarrow> real \<Rightarrow> real \<Rightarrow> real" where
  "debt_service CAPEX_debt loan_amount T_loan' r_debt' =
     (if CAPEX_debt > 0 \<and> T_loan' > 0 \<and> r_debt' > 0 then
        (let r_monthly = r_debt' / 100 / 12;
             n_months = T_loan' * 12;
             monthly_payment =
               loan_amount * r_monthly / (1 - (1 + r_monthly) powr (- n_months))
         in monthly_payment * 12)
      else if CAPEX_debt > 0 \<and> T_loan' > 0 then loan_amount / T_loan'
      else 0)"

subsection \<open>The year loop (lines 91-142)\<close>

text \<open>\<^verbatim>\<open>unit_capex[n - 1] || 0\<close>: an index that is not an integer inside the array reads
  \<^verbatim>\<open>undefined\<close>, which \<^verbatim>\<open>||\<close> turns into 0.\<close>

definition capex_entry :: "real list \<Rightarrow> real \<Rightarrow> real" where
  "capex_entry unit_capex i =
     (if 0 \<le> i \<and> i < real (length unit_capex) \<and> i = of_int \<lfloor>i\<rfloor>
      then unit_capex ! nat \<lfloor>i\<rfloor> else 0)"

text \<open>Lines 97-100: \<^verbatim>\<open>for (let n = N_prev + 1; n <= N_deployed; n++)\<close>.\<close>

definition capex_of_year :: "real list \<Rightarrow> real \<Rightarrow> real \<Rightarrow> real" where
  "capex_of_year unit_capex N_prev N_deployed' =
     foldl (\<lambda>capex_year' n. capex_year' + capex_entry unit_capex (n - 1)) 0
       (map (\<lambda>k. N_prev + 1 + real k) [0..<nat (\<lfloor>N_deployed' - (N_prev + 1)\<rfloor> + 1)])"

text \<open>Line 110.\<close>

definition W_tipped :: "real \<Rightarrow> real \<Rightarrow> real \<Rightarrow> real" where
  "W_tipped N_deployed' F_tpy W_tpy' = min (N_deployed' * F_tpy) W_tpy'"

text \<open>Lines 92-131 and the record of lines 138-141: the values of year \<open>y\<close>, given the
  cumulative discounted cash flow of the years before.\<close>

definition year_values ::
  "inputs \<Rightarrow> real list \<Rightarrow> real \<Rightarrow> nat \<Rightarrow> real \<Rightarrow> year_record" where
  "year_values inp unit_capex annual_debt_service y cumulative_dcf =
     (let hours_yr = 8760 * f_avail inp;
          E_power_yr = P_elec inp * hours_yr;
          E_therm_yr = P_therm inp * hours_yr;
          F_tpy = F_tpd inp * 365 * f_avail inp;
          CC_net = max 0 (CC_methane inp + CC_fuel inp - CC_emissions inp);
          year = Y_start inp + real y;
          N_deployed = min (N_units inp) (of_int \<lfloor>real y * units_per_year inp\<rfloor> + 1);
          N_prev = (if y = 0 then 0
                    else min (N_units inp) (of_int \<lfloor>(real y - 1) * units_per_year inp\<rfloor> + 1));
          capex_year = capex_of_year unit_capex N_prev N_deployed;
          esc_power = (1 + r_power inp / 100) ^ y;
          esc_therm = (1 + r_therm inp / 100) ^ y;
          esc_tip = (1 + r_tipping inp / 100) ^ y;
          esc_carbon = (1 + r_carbon inp / 100) ^ y;
          R_pwr = N_deployed * E_power_yr * f_power_util inp * R_power inp * esc_power;
          R_thrm = N_deployed * E_therm_yr * f_therm_util inp * R_therm inp * esc_therm;
          R_tip = W_tipped N_deployed F_tpy (W_tpy inp) * R_tipping inp * esc_tip;
          R_crb = N_deployed * CC_net * P_carbon inp * esc_carbon;
          R_total = R_pwr + R_thrm + R_tip + R_crb;
          esc_maint = (1 + r_maint inp / 100) ^ y;
          esc_fuel = (1 + r_fuel inp / 100) ^ y;
          esc_fixed = (103 / 100) ^ y;
          C_maint = N_deployed * E_power_yr * R_maint inp * esc_maint;
          C_fuel' = N_deployed * F_tpy * C_fuel_process inp * esc_fuel;
          C_fixed = N_deployed * (C_insurance inp + C_acct_mgmt inp) * esc_fixed;
          OPEX = C_maint + C_fuel' + C_fixed;
          EBITDA = R_total - OPEX;
          DS = (if real y < T_loan inp then annual_debt_service else 0);
          DSCR = (if DS > 0 then Some (EBITDA / DS) else None);
          CF = R_total - OPEX - capex_year - DS;
          discount_factor = (1 + r_disc inp / 100) ^ y;
          DCF = CF / discount_factor
      in \<lparr> y_index = y, year = year, N_deployed = N_deployed, R_pwr = R_pwr,
           R_thrm = R_thrm, R_tip = R_tip, R_crb = R_crb, R_total = R_total,
           OPEX = OPEX, EBITDA = EBITDA, DS = DS, DSCR = DSCR,
           capex_year = capex_year, CF = CF, DCF = DCF,
           cumNPV = cumulative_dcf + DCF \<rparr>)"

text \<open>Lines 132-141: the loop's variables \<^verbatim>\<open>cumulative_dcf\<close>, \<^verbatim>\<open>cumulative_cf\<close>,
  \<^verbatim>\<open>payback_disc\<close>, \<^verbatim>\<open>payback_simple\<close> and \<^verbatim>\<open>years\<close>, after year \<open>y\<close>.\<close>

type_synonym loop_state = "real \<times> real \<times> nat option \<times> nat option \<times> year_record list"

fun year_step :: "inputs \<Rightarrow> real list \<Rightarrow> real \<Rightarrow> loop_state \<Rightarrow> nat \<Rightarrow> loop_state" where
  "year_step inp unit_capex annual_debt_service
     (cumulative_dcf, cumulative_cf, payback_disc, payback_simple, years) y =
     (let yr = year_values inp unit_capex annual_debt_service y cumulative_dcf;
          cumulative_dcf' = cumulative_dcf + DCF yr;
          cumulative_cf' = cumulative_cf + CF yr;
          payback_disc' =
            (if payback_disc = None \<and> y > 0 \<and> cumulative_dcf' \<ge> 0 then Some y
             else payback_disc);
          payback_simple' =
            (if payback_simple = None \<and> y > 0 \<and> cumulative_cf' \<ge> 0 then Some y
             else payback_simple)
      in (cumulative_dcf', cumulative_cf', payback_disc', payback_simple', years @ [yr]))"

text \<open>\<^verbatim>\<open>for (let y = 0; y <= T_project; y++)\<close>: the indices the loop visits.\<close>

definition year_indices :: "real \<Rightarrow> nat list" where
  "year_indices T_project' = (if 0 \<le> T_project' then [0..<nat \<lfloor>T_project'\<rfloor> + 1] else [])"

definition year_loop :: "inputs \<Rightarrow> real list \<Rightarrow> real \<Rightarrow> loop_state" where
  "year_loop inp unit_capex annual_debt_service =
     foldl (year_step inp unit_capex annual_debt_service) (0, 0, None, None, [])
       (year_indices (T_project inp))"

subsection \<open>IRR by bisection (lines 148-161)\<close>

text \<open>Lines 152-155.\<close>

definition npv_test :: "year_record list \<Rightarrow> real \<Rightarrow> real" where
  "npv_test years mid = foldl (\<lambda>npv yr. npv + CF yr / (1 + mid) ^ y_index yr) 0 years"

text \<open>Lines 150-158; the first argument counts the iterations that are left of the
  100 of \<^verbatim>\<open>for (let iter = 0; iter < 100; iter++)\<close>.\<close>

fun irr_loop :: "nat \<Rightarrow> year_record list \<Rightarrow> real \<Rightarrow> real \<Rightarrow> real \<times> real" where
  "irr_loop 0 years lo hi = (lo, hi)"
| "irr_loop (Suc left) years lo hi =
     (let mid = (lo + hi) / 2;
          lo' = (if npv_test years mid > 0 then mid else lo);
          hi' = (if npv_test years mid > 0 then hi else mid)
      in if \<bar>hi' - lo'\<bar> < 1 / 10000 then (lo', hi') else irr_loop left years lo' hi')"

definition solve_irr :: "year_record list \<Rightarrow> real option" where
  "solve_irr years =
     (case irr_loop 100 years (- (1 / 2)) 2 of
        (lo, hi) \<Rightarrow>
          if \<bar>lo - (- (1 / 2))\<bar> > 1 / 100 \<and> \<bar>hi - 2\<bar> > 1 / 100
          then Some ((lo + hi) / 2) else None)"

subsection \<open>The model (lines 27-194)\<close>

text \<open>The object returned at lines 182-193.\<close>

record model_result =
  hours_yr :: real
  E_power_yr :: real
  E_therm_yr :: real
  F_tpy :: real
  CC_net :: real
  C_current_total :: real
  C_enexor_total :: real
  savings_annual :: real
  savings_pct :: real
  C_current_power :: real
  C_current_therm :: real
  C_current_waste :: real
  C_enexor_power :: real
  C_enexor_therm :: real
  C_enexor_waste :: real
  CAPEX_unit1 :: real
  capex_fleet_total :: real
  unit_capex :: "real list"
  loan_amount :: real
  annual_debt_service :: real
  NPV :: real
  IRR :: "real option"
  payback_disc :: "nat option"
  payback_simple :: "nat option"
  DSCR_min :: "real option"
  R_per_unit :: real
  R_per_unit_power :: real
  R_per_unit_therm :: real
  R_per_unit_tip :: real
  R_per_unit_carbon :: real
  years :: "year_record list"
  warnings :: "warning list"
  yr1_revenue :: real
  yr1_opex :: real
  yr1_ebitda :: real

text \<open>Line 168, \<^verbatim>\<open>years[1] || years[0]\<close>: a year record is an object, hence truthy, so
  the second operand is read only when \<^verbatim>\<open>years[1]\<close> is \<^verbatim>\<open>undefined\<close>; with no record at
  all the value is \<^verbatim>\<open>undefined\<close>.\<close>

definition yr1_of :: "year_record list \<Rightarrow> year_record option" where
  "yr1_of years' =
     (if 1 < length years' then Some (years' ! 1)
      else if 0 < length years' then Some (years' ! 0)
      else None)"

text \<open>Lines 164-165. \<^verbatim>\<open>Math.min(...dscr_values)\<close> is read only for a non-empty list.\<close>

definition dscr_min :: "year_record list \<Rightarrow> real option" where
  "dscr_min years' =
     (let dscr_values = map (\<lambda>y. the (DSCR y)) (filter (\<lambda>y. DSCR y \<noteq> None) years')
      in if length dscr_values > 0 then Some (foldl min (hd dscr_values) (tl dscr_values))
         else None)"

text \<open>Lines 178-180, in the order of the pushes.\<close>

definition warnings_of :: "real \<Rightarrow> real \<Rightarrow> real option \<Rightarrow> warning list" where
  "warnings_of NPV' r_disc' DSCR_min' =
     (if NPV' < 0 then [NPV_negative r_disc'] else []) @
     (if DSCR_min' \<noteq> None \<and> the DSCR_min' < 1 then [DSCR_below_1] else []) @
     (if DSCR_min' \<noteq> None \<and> the DSCR_min' < 125 / 100 \<and> the DSCR_min' \<ge> 1
      then [DSCR_below_1_25] else [])"

definition runFinancialModel :: "inputs \<Rightarrow> error + model_result" where
  "runFinancialModel inp =
     (let hours_yr = 8760 * f_avail inp;
          E_power_yr = P_elec inp * hours_yr;
          E_therm_yr = P_therm inp * hours_yr;
          F_tpy = F_tpd inp * 365 * f_avail inp;
          CC_net = max 0 (CC_methane inp + CC_fuel inp - CC_emissions inp);
          C_current_power = E_power_yr * f_power_util inp * C_cust_power inp;
          C_current_therm = E_therm_yr * f_therm_util inp * C_cust_therm inp;
          C_current_waste = min F_tpy (W_tpy inp) * C_cust_waste inp;
          C_current_total = C_current_power + C_current_therm + C_current_waste;
          C_enexor_power = E_power_yr * f_power_util inp * R_power inp;
          C_enexor_therm = E_therm_yr * f_therm_util inp * R_therm inp;
          C_enexor_waste = min F_tpy (W_tpy inp) * R_tipping inp;
          C_enexor_total = C_enexor_power + C_enexor_therm + C_enexor_waste;
          savings_annual = C_current_total - C_enexor_total;
          savings_pct =
            (if C_current_total > 0 then (savings_annual / C_current_total) * 100 else 0);
          CAPEX_unit1 = C_biochp inp + C_enexfuel inp + C_install inp;
          unit_capex = unit_capex_loop CAPEX_unit1 (LR inp) (N_units inp);
          capex_fleet_total = foldl (\<lambda>s v. s + v) 0 unit_capex;
          CAPEX_debt = capex_fleet_total * (1 - f_equity inp);
          loan_amount = CAPEX_debt * (1 + f_loan_fees inp / 100);
          annual_debt_service = debt_service CAPEX_debt loan_amount (T_loan inp) (r_debt inp)
      in case year_loop inp unit_capex annual_debt_service of
           (cumulative_dcf, cumulative_cf, payback_disc', payback_simple', years') \<Rightarrow>
             (let NPV = cumulative_dcf;
                  IRR = solve_irr years';
                  DSCR_min = dscr_min years'
              in case yr1_of years' of
                   None \<Rightarrow> Inl TypeError
                 | Some yr1 \<Rightarrow>
                     (let R_per_unit =
                            (if N_deployed yr1 > 0 then R_total yr1 / N_deployed yr1 else 0);
                          R_per_unit_power =
                            (if N_deployed yr1 > 0 then R_pwr yr1 / N_deployed yr1 else 0);
                          R_per_unit_therm =
                            (if N_deployed yr1 > 0 then R_thrm yr1 / N_deployed yr1 else 0);
                          R_per_unit_tip =
                            (if N_deployed yr1 > 0 then R_tip yr1 / N_deployed yr1 else 0);
                          R_per_unit_carbon =
                            (if N_deployed yr1 > 0 then R_crb yr1 / N_deployed yr1 else 0);
                          warnings = warnings_of NPV (r_disc inp) DSCR_min
                      in Inr \<lparr> hours_yr = hours_yr, E_power_yr = E_power_yr,
                           E_therm_yr = E_therm_yr, F_tpy = F_tpy, CC_net = CC_net,
                           C_current_total = C_current_total,
                           C_enexor_total = C_enexor_total,
                           savings_annual = savings_annual, savings_pct = savings_pct,
                           C_current_power = C_current_power,
                           C_current_therm = C_current_therm,
                           C_current_waste = C_current_waste,
                           C_enexor_power = C_enexor_power,
                           C_enexor_therm = C_enexor_therm,
                           C_enexor_waste = C_enexor_waste,
                           CAPEX_unit1 = CAPEX_unit1,
                           capex_fleet_total = capex_fleet_total, unit_capex = unit_capex,
                           loan_amount = loan_amount,
                           annual_debt_service = annual_debt_service,
                           NPV = NPV, IRR = IRR, payback_disc = payback_disc',
                           payback_simple = payback_simple', DSCR_min = DSCR_min,
                           R_per_unit = R_per_unit, R_per_unit_power = R_per_unit_power,
                           R_per_unit_therm = R_per_unit_therm,
                           R_per_unit_tip = R_per_unit_tip,
                           R_per_unit_carbon = R_per_unit_carbon,
                           years = years', warnings = warnings,
                           yr1_revenue = R_total yr1, yr1_opex = OPEX yr1,
                           yr1_ebitda = EBITDA yr1 \<rparr>)))"

subsection \<open>Sensitivity (lines 197-216)\<close>




text \<open>The row objects of line 214; the source's field \<^verbatim>\<open>range\<close> is \<open>range'\<close> here.\<close>

record sensitivity_row =
  label :: string
  lo :: real
  hi :: real
  range' :: real









subsection \<open>The application's initial inputs (lines 338-350)\<close>

definition default_inputs :: inputs where
  "default_inputs =
     \<lparr> P_elec = 225, P_therm = 400, f_avail = 92 / 100, F_tpd = 5, N_units = 3,
       R_power = 10 / 100, f_power_util = 1, r_power = 3,
       R_therm = 27 / 1000, f_therm_util = 1, r_therm = 3,
       R_tipping = 80, W_tpy = 3000, r_tipping = 3,
       CC_methane = 1200, CC_fuel = 1100, CC_emissions = 500, P_carbon = 20, r_carbon = 3,
       C_cust_power = 143 / 1000, C_cust_therm = 34 / 1000, C_cust_waste = 100,
       C_biochp = 660000, C_enexfuel = 45000, C_install = 25000, C_site = 12500,
       R_maint = 25 / 1000, C_fuel_process = 70, C_insurance = 2000, C_acct_mgmt = 2920,
       r_maint = 3, r_fuel = 3,
       f_equity = 50 / 100, r_debt = 6, T_loan = 5, f_loan_fees = 2,
       r_disc = 7, T_project = 10, Y_start = 2026, LR = 90 / 100, units_per_year = 2 \<rparr>"

text \<open>The debt scenario: one unit of capital cost 200,000, half of it financed,
  no fee: a loan amount of 100,000 at 6% over 5 years.\<close>

definition debt_scenario :: inputs where
  "debt_scenario = default_inputs\<lparr>N_units := 1, C_biochp := 130000, f_loan_fees := 0\<rparr>"

text \<open>The worked scenario; the inputs it leaves open are those of the application's
  initial state.\<close>

definition worked_scenario :: inputs where
  "worked_scenario =
     \<lparr> P_elec = 100, P_therm = 400, f_avail = 1, F_tpd = 5, N_units = 1,
       R_power = 10 / 100, f_power_util = 1, r_power = 0,
       R_therm = 0, f_therm_util = 1, r_therm = 0,
       R_tipping = 0, W_tpy = 3000, r_tipping = 0,
       CC_methane = 1200, CC_fuel = 1100, CC_emissions = 500, P_carbon = 0, r_carbon = 0,
       C_cust_power = 143 / 1000, C_cust_therm = 34 / 1000, C_cust_waste = 100,
       C_biochp = 0, C_enexfuel = 0, C_install = 0, C_site = 0,
       R_maint = 0, C_fuel_process = 0, C_insurance = 0, C_acct_mgmt = 0,
       r_maint = 0, r_fuel = 0,
       f_equity = 1, r_debt = 6, T_loan = 5, f_loan_fees = 2,
       r_disc = 0, T_project = 1, Y_start = 2026, LR = 90 / 100, units_per_year = 2 \<rparr>"

text \<open>A scenario without revenue: the worked scenario with power rate 0 and an
  insurance cost of 1000 a year.\<close>

definition loss_scenario :: inputs where
  "loss_scenario = worked_scenario\<lparr>R_power := 0, C_insurance := 1000\<rparr>"

text \<open>A scenario with an IRR: the worked scenario with a capital cost of 160,600.\<close>

definition irr_scenario :: inputs where
  "irr_scenario = worked_scenario\<lparr>C_biochp := 160600\<rparr>"

text \<open>A scenario whose NPV touches zero without changing sign: one unit, no capital
  cost, a power revenue of 560,640 escalated by -187.5% a year and a maintenance cost of
  420,480 escalated by -100% a year, over two years.\<close>

definition touch_scenario :: inputs where
  "touch_scenario =
     worked_scenario\<lparr>P_elec := 1, R_power := 64, r_power := - (375 / 2), R_maint := 48,
       r_maint := - 100, T_project := 2\<rparr>"

section \<open>Properties\<close>

subsection \<open>When the model returns\<close>

lemma year_step_years:
  "snd (snd (snd (snd (year_step inp uc ads st y)))) =
     snd (snd (snd (snd st))) @ [year_values inp uc ads y (fst st)]"
  by (cases st) (simp add: Let_def)

lemma year_step_fst:
  "fst (year_step inp uc ads st y) = fst st + DCF (year_values inp uc ads y (fst st))"
  by (cases st) (simp add: Let_def)

lemma foldl_year_step_length:
  "length (snd (snd (snd (snd (foldl (year_step inp uc ads) st idx))))) =
     length (snd (snd (snd (snd st)))) + length idx"
  by (induction idx arbitrary: st) (simp_all add: year_step_years)

lemma year_indices_nonempty: "0 \<le> T \<Longrightarrow> year_indices T \<noteq> []"
  by (simp add: year_indices_def)


lemma yr1_of_Some: "ys \<noteq> [] \<Longrightarrow> \<exists>yr. yr1_of ys = Some yr"
  by (cases ys) (simp_all add: yr1_of_def)

text \<open>The model returns a result exactly when the horizon is not negative; otherwise no
  year is simulated and line 169 reads a property of \<^verbatim>\<open>undefined\<close>.\<close>

lemma runFinancialModel_returns:
  "0 \<le> T_project inp \<Longrightarrow> \<exists>res. runFinancialModel inp = Inr res"
proof -
  assume T: "0 \<le> T_project inp"
  define uc where
    "uc = unit_capex_loop (C_biochp inp + C_enexfuel inp + C_install inp) (LR inp) (N_units inp)"
  define ads where
    "ads = debt_service (foldl (\<lambda>s v. s + v) 0 uc * (1 - f_equity inp))
       (foldl (\<lambda>s v. s + v) 0 uc * (1 - f_equity inp) * (1 + f_loan_fees inp / 100))
       (T_loan inp) (r_debt inp)"
  obtain c s pd ps ys where L: "year_loop inp uc ads = (c, s, pd, ps, ys)"
    by (metis prod_cases5)
  have "length ys = length (year_indices (T_project inp))"
    using foldl_year_step_length
      [of inp uc ads "(0, 0, None, None, [])" "year_indices (T_project inp)"] L
    by (simp add: year_loop_def)
  with T have "ys \<noteq> []" using year_indices_nonempty by fastforce
  then obtain yr where "yr1_of ys = Some yr" using yr1_of_Some by blast
  with L show ?thesis
    by (simp add: runFinancialModel_def Let_def uc_def ads_def)
qed


lemma returns_projr:
  "0 \<le> T_project inp \<Longrightarrow> runFinancialModel inp = Inr (projr (runFinancialModel inp))"
  using runFinancialModel_returns [of inp] by auto

subsection \<open>The fields of a returned result\<close>

lemma runFinancialModel_fields:
  assumes "runFinancialModel inp = Inr res"
  shows "CAPEX_unit1 res = C_biochp inp + C_enexfuel inp + C_install inp"
    and "unit_capex res = unit_capex_loop (CAPEX_unit1 res) (LR inp) (N_units inp)"
    and "capex_fleet_total res = foldl (\<lambda>s v. s + v) 0 (unit_capex res)"
    and "loan_amount res =
           capex_fleet_total res * (1 - f_equity inp) * (1 + f_loan_fees inp / 100)"
    and "annual_debt_service res =
           debt_service (capex_fleet_total res * (1 - f_equity inp)) (loan_amount res)
             (T_loan inp) (r_debt inp)"
    and "F_tpy res = F_tpd inp * 365 * f_avail inp"
    and "E_power_yr res = P_elec inp * (8760 * f_avail inp)"
    and "NPV res = fst (year_loop inp (unit_capex res) (annual_debt_service res))"
    and "payback_disc res =
           fst (snd (snd (year_loop inp (unit_capex res) (annual_debt_service res))))"
    and "years res =
           snd (snd (snd (snd (year_loop inp (unit_capex res) (annual_debt_service res)))))"
    and "IRR res = solve_irr (years res)"
    and "DSCR_min res = dscr_min (years res)"
    and "warnings res = warnings_of (NPV res) (r_disc inp) (DSCR_min res)"
  using assms
  by (auto simp: runFinancialModel_def Let_def split: prod.splits option.splits)

lemma runFinancialModel_yr1:
  assumes "runFinancialModel inp = Inr res"
  shows "\<exists>yr1. yr1_of (years res) = Some yr1 \<and>
      R_per_unit res = (if N_deployed yr1 > 0 then R_total yr1 / N_deployed yr1 else 0) \<and>
      R_per_unit_power res = (if N_deployed yr1 > 0 then R_pwr yr1 / N_deployed yr1 else 0) \<and>
      R_per_unit_therm res = (if N_deployed yr1 > 0 then R_thrm yr1 / N_deployed yr1 else 0) \<and>
      R_per_unit_tip res = (if N_deployed yr1 > 0 then R_tip yr1 / N_deployed yr1 else 0) \<and>
      R_per_unit_carbon res = (if N_deployed yr1 > 0 then R_crb yr1 / N_deployed yr1 else 0) \<and>
      yr1_revenue res = R_total yr1 \<and> yr1_opex res = OPEX yr1 \<and> yr1_ebitda res = EBITDA yr1"
  using assms
  by (auto simp: runFinancialModel_def Let_def split: prod.splits option.splits)

subsection \<open>The year loop\<close>

lemma foldl_year_step_all:
  assumes "\<forall>yr\<in>set (snd (snd (snd (snd st)))). P yr"
    and "\<And>y c. y \<in> set idx \<Longrightarrow> P (year_values inp uc ads y c)"
  shows "\<forall>yr\<in>set (snd (snd (snd (snd (foldl (year_step inp uc ads) st idx))))). P yr"
  using assms
proof (induction idx arbitrary: st)
  case Nil
  then show ?case by simp
next
  case (Cons y idx)
  have "\<forall>yr\<in>set (snd (snd (snd (snd (year_step inp uc ads st y))))). P yr"
    using Cons.prems by (simp add: year_step_years)
  then show ?case using Cons.IH [of "year_step inp uc ads st y"] Cons.prems(2) by simp
qed

lemma years_all:
  assumes "runFinancialModel inp = Inr res"
    and "\<And>y c. P (year_values inp (unit_capex res) (annual_debt_service res) y c)"
  shows "\<forall>yr\<in>set (years res). P yr"
  using foldl_year_step_all
    [of "(0, 0, None, None, [])" P _ inp "unit_capex res" "annual_debt_service res"] assms(2)
  by (simp add: runFinancialModel_fields(10) [OF assms(1)] year_loop_def)

lemma foldl_year_step_map:
  assumes "\<And>y c. f (year_values inp uc ads y c) = g y"
  shows "map f (snd (snd (snd (snd (foldl (year_step inp uc ads) st idx))))) =
         map f (snd (snd (snd (snd st)))) @ map g idx"
  by (induction idx arbitrary: st) (simp_all add: year_step_years assms)

lemma years_map:
  assumes "runFinancialModel inp = Inr res"
    and "\<And>y c. f (year_values inp (unit_capex res) (annual_debt_service res) y c) = g y"
  shows "map f (years res) = map g (year_indices (T_project inp))"
  using foldl_year_step_map
    [of f inp "unit_capex res" "annual_debt_service res" g "(0, 0, None, None, [])"] assms(2)
  by (simp add: runFinancialModel_fields(10) [OF assms(1)] year_loop_def)

lemma years_y_index:
  "runFinancialModel inp = Inr res \<Longrightarrow> map y_index (years res) = year_indices (T_project inp)"
  using years_map [of inp res y_index "\<lambda>y. y"] by (simp add: year_values_def Let_def)

lemma years_nonempty: "runFinancialModel inp = Inr res \<Longrightarrow> years res \<noteq> []"
  using runFinancialModel_yr1 [of inp res] by (auto simp: yr1_of_def)

subsection \<open>Capital cost\<close>

lemma two_powr_learning: "0 < r \<Longrightarrow> 2 powr (ln r / ln 2) = (r::real)"
  by (simp add: powr_def)

lemma unit_capex_loop_length: "length (unit_capex_loop C r (real N)) = N"
  by (simp add: unit_capex_loop_def)

lemma unit_capex_loop_nth:
  "1 \<le> n \<Longrightarrow> n \<le> N \<Longrightarrow>
     unit_capex_loop C r (real N) ! (n - 1) = C * real n powr (ln r / ln 2)"
proof -
  assume n: "1 \<le> n" "n \<le> N"
  have "1 + (n - 1) < N + 1" using n by arith
  then have "[1..<N + 1] ! (n - 1) = 1 + (n - 1)" by (rule nth_upt)
  then have "[1..<N + 1] ! (n - 1) = n" using n by simp
  moreover have "n - 1 < length [1..<N + 1]" using n by simp
  ultimately show ?thesis
    by (simp add: unit_capex_loop_def Let_def del: upt_Suc)
qed

text \<open>
  The learning curve in exact arithmetic: for a fleet of \<open>N \<ge> 1\<close> units and a learning
  rate in \<open>(0, 1]\<close> the list of unit costs has \<open>N\<close> entries, entry \<open>n\<close> (counted from 1)
  is \<open>C \<sdot> n powr (ln LR / ln 2)\<close> with \<open>C\<close> the base unit cost, the first entry is \<open>C\<close> and
  the second is \<open>C \<sdot> LR\<close>. The last equality rests on \<open>two_powr_learning\<close>; whether the
  doubles of the code satisfy it exactly (C5) depends on the rounding of \<^verbatim>\<open>Math.log\<close> and
  \<^verbatim>\<open>Math.pow\<close> and is not a statement of this embedding.
\<close>

lemma learning_curve_costs_exact_arithmetic:
  assumes "runFinancialModel inp = Inr res" and "N_units inp = real N" and "1 \<le> N"
    and "0 < LR inp" and "LR inp \<le> 1"
  shows "length (unit_capex res) = N \<and>
         (\<forall>n. 1 \<le> n \<and> n \<le> N \<longrightarrow>
              unit_capex res ! (n - 1) = CAPEX_unit1 res * real n powr (ln (LR inp) / ln 2)) \<and>
         unit_capex res ! 0 = CAPEX_unit1 res \<and>
         (2 \<le> N \<longrightarrow> unit_capex res ! 1 = CAPEX_unit1 res * LR inp) \<and>
         CAPEX_unit1 res = C_biochp inp + C_enexfuel inp + C_install inp"
proof -
  have uc: "unit_capex res = unit_capex_loop (CAPEX_unit1 res) (LR inp) (real N)"
    using runFinancialModel_fields(2) [OF assms(1)] assms(2) by simp
  have len: "length (unit_capex res) = N"
    by (simp add: uc unit_capex_loop_length)
  have nth: "unit_capex res ! (n - 1) = CAPEX_unit1 res * real n powr (ln (LR inp) / ln 2)"
    if "1 \<le> n \<and> n \<le> N" for n
    using that unit_capex_loop_nth [of n N "CAPEX_unit1 res" "LR inp"] by (simp only: uc)
  have first: "unit_capex res ! 0 = CAPEX_unit1 res"
    using nth [of 1] assms(3) by simp
  have second: "unit_capex res ! 1 = CAPEX_unit1 res * LR inp" if "2 \<le> N"
    using nth [of 2] that two_powr_learning [OF assms(4)] by simp
  show ?thesis
    using len nth first second runFinancialModel_fields(1) [OF assms(1)] by blast
qed

subsection \<open>Debt service\<close>

lemma debt_service_zero_loan: "debt_service P 0 T r = 0"
  by (simp add: debt_service_def)

lemma debt_service_no_principal: "P \<le> 0 \<Longrightarrow> debt_service P L T r = 0"
  by (simp add: debt_service_def)

lemma debt_service_no_term: "T \<le> 0 \<Longrightarrow> debt_service P L T r = 0"
  by (simp add: debt_service_def)

lemma annuity_present_value:
  fixes L rm :: real
  assumes "0 < rm" and "0 < n"
  defines "M \<equiv> L * rm / (1 - (1 + rm) powr (- real n))"
  shows "(\<Sum>k = 1..n. M / (1 + rm) ^ k) = L"
proof -
  define q where "q = 1 / (1 + rm)"
  have q: "0 < q" "q < 1" "q \<noteq> 1" using assms(1) by (simp_all add: q_def)
  have qn: "q ^ n < 1" using q assms(2)
    by (metis power_0 power_strict_decreasing_iff)
  have pw: "(1 + rm) powr (- real n) = q ^ n"
    using assms(1) by (simp add: powr_minus powr_realpow q_def power_one_over inverse_eq_divide)
  have "(\<Sum>k = 1..n. M / (1 + rm) ^ k) = M * (\<Sum>k = 1..n. q ^ k)"
    by (simp add: q_def sum_distrib_left power_one_over divide_inverse power_inverse)
  also have "(\<Sum>k = 1..n. q ^ k) = q * (\<Sum>k<n. q ^ k)"
    by (simp add: sum_distrib_left sum.atLeast1_atMost_eq lessThan_Suc_atMost [symmetric]
        sum.lessThan_Suc_shift del: sum.lessThan_Suc)
  also have "(\<Sum>k<n. q ^ k) = (q ^ n - 1) / (q - 1)"
    using q(3) by (rule geometric_sum)
  also have "M * (q * ((q ^ n - 1) / (q - 1))) = L"
  proof -
    have "q / (1 - q) = 1 / rm" using assms(1) by (simp add: q_def field_simps)
    moreover have "q * ((q ^ n - 1) / (q - 1)) = (q / (1 - q)) * (1 - q ^ n)"
      using q by (simp add: divide_simps) (simp add: algebra_simps)
    ultimately have "q * ((q ^ n - 1) / (q - 1)) = (1 - q ^ n) / rm"
      by simp
    then show ?thesis using qn assms(1) by (simp add: M_def pw)
  qed
  finally show ?thesis .
qed



lemma debt_example: "0 < P \<Longrightarrow> \<bar>debt_service P 100000 5 6 - 23200\<bar> < 1"
proof -
  assume P: "0 < P"
  have pw: "(1 + 6 / 100 / 12 :: real) powr (- (5 * 12)) = 200 ^ 60 / 201 ^ 60"
    by (simp add: powr_minus inverse_eq_divide power_divide)
  have ds: "debt_service P 100000 5 6 = 6000 / (1 - 200 ^ 60 / 201 ^ 60)"
    using P by (simp only: debt_service_def Let_def pw) simp
  have "\<bar>6000 / (1 - 200 ^ 60 / 201 ^ 60) - 23200 :: real\<bar> < 1"
    by simp
  then show ?thesis by (simp only: ds)
qed

lemma debt_service_annuity:
  assumes "0 < P" and "0 < T" and "0 < r"
  shows "debt_service P L T r =
    12 * (L * (r / 100 / 12) / (1 - (1 + r / 100 / 12) powr (- (T * 12))))"
proof -
  have "debt_service P L T r =
      L * (r / 100 / 12) / (1 - (1 + r / 100 / 12) powr (- (T * 12))) * 12"
    by (simp only: debt_service_def Let_def assms simp_thms if_True)
  then show ?thesis by (simp only: mult.commute)
qed

lemma debt_service_straight:
  "0 < P \<Longrightarrow> 0 < T \<Longrightarrow> r \<le> 0 \<Longrightarrow> debt_service P L T r = L / T"
  by (simp add: debt_service_def)

text \<open>
  C6 (as amended). With principal = fleet total \<open>\<times>\<close> (1 - equity fraction), not negative, and loan
  amount = principal \<open>\<times>\<close> (1 + fee / 100): for a positive rate and term the annual debt
  service is 12 times the monthly annuity payment (the payment whose 12 \<open>\<times>\<close> term monthly
  instalments, discounted at the monthly rate, are worth the loan amount); for rate 0 and
  a positive term it is loan amount / term; for principal 0 or term 0 it is 0. A loan
  amount of 100,000 at 6% over 5 years gives 23,200 to within 1.
\<close>

theorem debt_service_three_cases:
  assumes "runFinancialModel inp = Inr res"
    and "0 \<le> capex_fleet_total res * (1 - f_equity inp)"
  shows
    "loan_amount res =
       capex_fleet_total res * (1 - f_equity inp) * (1 + f_loan_fees inp / 100) \<and>
     (0 < r_debt inp \<and> 0 < T_loan inp \<longrightarrow>
        annual_debt_service res =
          12 * (loan_amount res * (r_debt inp / 100 / 12) /
                (1 - (1 + r_debt inp / 100 / 12) powr (- (T_loan inp * 12))))) \<and>
     (\<forall>n. 0 < r_debt inp \<and> 0 < n \<and> T_loan inp = real n \<longrightarrow>
        (\<Sum>k = 1..12 * n. (annual_debt_service res / 12) / (1 + r_debt inp / 100 / 12) ^ k) =
          loan_amount res) \<and>
     (r_debt inp = 0 \<and> 0 < T_loan inp \<longrightarrow>
        annual_debt_service res = loan_amount res / T_loan inp) \<and>
     (capex_fleet_total res * (1 - f_equity inp) = 0 \<or> T_loan inp = 0 \<longrightarrow>
        annual_debt_service res = 0) \<and>
     (loan_amount res = 100000 \<and> r_debt inp = 6 \<and> T_loan inp = 5 \<longrightarrow>
        \<bar>annual_debt_service res - 23200\<bar> < 1)"
proof -
  let ?P = "capex_fleet_total res * (1 - f_equity inp)"
  let ?rm = "r_debt inp / 100 / 12"
  have la: "loan_amount res = ?P * (1 + f_loan_fees inp / 100)"
    by (rule runFinancialModel_fields(4) [OF assms(1)])
  have ads: "annual_debt_service res =
      debt_service ?P (loan_amount res) (T_loan inp) (r_debt inp)"
    by (rule runFinancialModel_fields(5) [OF assms(1)])
  have zero: "annual_debt_service res = 0" if "?P = 0 \<or> T_loan inp = 0"
    using that by (auto simp: ads debt_service_def)
  have annuity: "annual_debt_service res =
      12 * (loan_amount res * ?rm / (1 - (1 + ?rm) powr (- (T_loan inp * 12))))"
    if "0 < r_debt inp \<and> 0 < T_loan inp"
  proof (cases "?P = 0")
    case True
    then have "loan_amount res = 0" using la by simp
    then show ?thesis using zero True by simp
  next
    case False
    then have "0 < ?P" unfolding less_le using assms(2) by metis
    then show ?thesis using that by (simp only: ads debt_service_annuity)
  qed
  have pv: "(\<Sum>k = 1..12 * n. (annual_debt_service res / 12) / (1 + ?rm) ^ k) = loan_amount res"
    if "0 < r_debt inp \<and> 0 < n \<and> T_loan inp = real n" for n
  proof -
    have e: "T_loan inp * 12 = real (12 * n)" using that by simp
    have a: "annual_debt_service res =
        12 * (loan_amount res * ?rm / (1 - (1 + ?rm) powr (- (T_loan inp * 12))))"
      using annuity that by simp
    have h: "annual_debt_service res / 12 =
        loan_amount res * ?rm / (1 - (1 + ?rm) powr (- real (12 * n)))"
      unfolding a e by (rule nonzero_mult_div_cancel_left) simp
    have "0 < ?rm" "0 < 12 * n" using that by simp_all
    then show ?thesis unfolding h by (rule annuity_present_value)
  qed
  have straight: "annual_debt_service res = loan_amount res / T_loan inp"
    if "r_debt inp = 0 \<and> 0 < T_loan inp"
  proof (cases "?P = 0")
    case True
    then have "loan_amount res = 0" using la by simp
    then show ?thesis using zero True by simp
  next
    case False
    then have "0 < ?P" unfolding less_le using assms(2) by metis
    then show ?thesis using that by (simp add: ads debt_service_straight)
  qed
  have example: "\<bar>annual_debt_service res - 23200\<bar> < 1"
    if "loan_amount res = 100000 \<and> r_debt inp = 6 \<and> T_loan inp = 5"
  proof -
    have "?P \<noteq> 0" using la that by auto
    then have "0 < ?P" unfolding less_le using assms(2) by metis
    then show ?thesis using debt_example [of ?P] that by (simp add: ads)
  qed
  show ?thesis using la annuity pv straight zero example by blast
qed

lemma single_unit_capex:
  assumes "runFinancialModel inp = Inr res" and "N_units inp = 1"
  shows "capex_fleet_total res = C_biochp inp + C_enexfuel inp + C_install inp"
  by (simp add: runFinancialModel_fields(1-3) [OF assms(1)] assms(2) unit_capex_loop_def)

theorem debt_service_three_cases_witness:
  "runFinancialModel debt_scenario = Inr (projr (runFinancialModel debt_scenario)) \<and>
   0 \<le> capex_fleet_total (projr (runFinancialModel debt_scenario)) * (1 - f_equity debt_scenario) \<and>
   0 < r_debt debt_scenario \<and> 0 < T_loan debt_scenario \<and>
   loan_amount (projr (runFinancialModel debt_scenario)) = 100000 \<and>
   r_debt debt_scenario = 6 \<and> T_loan debt_scenario = 5 \<and>
   \<bar>annual_debt_service (projr (runFinancialModel debt_scenario)) - 23200\<bar> < 1 \<and>
   (\<Sum>k = 1..12 * 5. (annual_debt_service (projr (runFinancialModel debt_scenario)) / 12)
        / (1 + 6 / 100 / 12) ^ k) = 100000 \<and>
   runFinancialModel (debt_scenario\<lparr>r_debt := 0\<rparr>) =
     Inr (projr (runFinancialModel (debt_scenario\<lparr>r_debt := 0\<rparr>))) \<and>
   r_debt (debt_scenario\<lparr>r_debt := 0\<rparr>) = 0 \<and> 0 < T_loan (debt_scenario\<lparr>r_debt := 0\<rparr>) \<and>
   annual_debt_service (projr (runFinancialModel (debt_scenario\<lparr>r_debt := 0\<rparr>))) = 20000 \<and>
   runFinancialModel (debt_scenario\<lparr>f_equity := 1\<rparr>) =
     Inr (projr (runFinancialModel (debt_scenario\<lparr>f_equity := 1\<rparr>))) \<and>
   capex_fleet_total (projr (runFinancialModel (debt_scenario\<lparr>f_equity := 1\<rparr>)))
     * (1 - f_equity (debt_scenario\<lparr>f_equity := 1\<rparr>)) = 0 \<and>
   annual_debt_service (projr (runFinancialModel (debt_scenario\<lparr>f_equity := 1\<rparr>))) = 0"
proof -
  let ?w1 = "debt_scenario"
  let ?w2 = "debt_scenario\<lparr>r_debt := 0\<rparr>"
  let ?w3 = "debt_scenario\<lparr>f_equity := 1\<rparr>"
  let ?r1 = "projr (runFinancialModel ?w1)"
  let ?r2 = "projr (runFinancialModel ?w2)"
  let ?r3 = "projr (runFinancialModel ?w3)"
  have r1: "runFinancialModel ?w1 = Inr ?r1"
    by (rule returns_projr) (simp add: debt_scenario_def default_inputs_def)
  have r2: "runFinancialModel ?w2 = Inr ?r2"
    by (rule returns_projr) (simp add: debt_scenario_def default_inputs_def)
  have r3: "runFinancialModel ?w3 = Inr ?r3"
    by (rule returns_projr) (simp add: debt_scenario_def default_inputs_def)
  have c1: "capex_fleet_total ?r1 = 200000"
    using single_unit_capex [OF r1] by (simp add: debt_scenario_def default_inputs_def)
  have c2: "capex_fleet_total ?r2 = 200000"
    using single_unit_capex [OF r2] by (simp add: debt_scenario_def default_inputs_def)
  have c3: "capex_fleet_total ?r3 = 200000"
    using single_unit_capex [OF r3] by (simp add: debt_scenario_def default_inputs_def)
  have f: "f_equity ?w1 = 1 / 2" "f_loan_fees ?w1 = 0" "r_debt ?w1 = 6" "T_loan ?w1 = 5"
    "f_equity ?w2 = 1 / 2" "f_loan_fees ?w2 = 0" "r_debt ?w2 = 0" "T_loan ?w2 = 5"
    "f_equity ?w3 = 1"
    by (simp_all add: debt_scenario_def default_inputs_def)
  have p1: "0 \<le> capex_fleet_total ?r1 * (1 - f_equity ?w1)" by (simp add: c1 f)
  have p2: "0 \<le> capex_fleet_total ?r2 * (1 - f_equity ?w2)" by (simp add: c2 f)
  have p3: "0 \<le> capex_fleet_total ?r3 * (1 - f_equity ?w3)" by (simp add: c3 f)
  note t1 = debt_service_three_cases [OF r1 p1]
  note t2 = debt_service_three_cases [OF r2 p2]
  note t3 = debt_service_three_cases [OF r3 p3]
  have l1: "loan_amount ?r1 = 100000" using t1 by (simp add: c1 f)
  have l2: "loan_amount ?r2 = 100000" using t2 by (simp add: c2 f)
  have a1: "\<bar>annual_debt_service ?r1 - 23200\<bar> < 1" using t1 l1 f by blast
  have "(0::real) < r_debt ?w1 \<and> (0::nat) < 5 \<and> T_loan ?w1 = real 5" by (simp add: f)
  with t1 have "(\<Sum>k = 1..12 * 5. (annual_debt_service ?r1 / 12) / (1 + r_debt ?w1 / 100 / 12) ^ k)
      = loan_amount ?r1"
    by blast
  then have s1: "(\<Sum>k = 1..12 * 5. (annual_debt_service ?r1 / 12) / (1 + 6 / 100 / 12) ^ k) = 100000"
    by (simp only: l1 f)
  have "annual_debt_service ?r2 = loan_amount ?r2 / T_loan ?w2" using t2 f by simp
  then have a2: "annual_debt_service ?r2 = 20000" by (simp add: l2 f)
  have z3: "capex_fleet_total ?r3 * (1 - f_equity ?w3) = 0" by (simp add: f)
  with t3 have a3: "annual_debt_service ?r3 = 0" by blast
  show ?thesis
    using r1 r2 r3 p1 l1 a1 s1 a2 z3 a3 f by simp
qed

lemma annuity_example_value:
  "12 * (- 100000 * (6 / 100 / 12) / (1 - (1 + 6 / 100 / 12) powr (- (5 * 12)))) < (- 23000 :: real)"
proof -
  have pw: "(1 + 6 / 100 / 12 :: real) powr (- (5 * 12)) = 200 ^ 60 / 201 ^ 60"
    by (simp add: powr_minus inverse_eq_divide power_divide)
  show ?thesis by (simp only: pw) simp
qed

text \<open>
  The claim as stated has no condition on the principal. With an equity fraction of 1.5
  the principal and the loan amount are -100,000; at 6% over 5 years the annuity of the
  claim's first case is about -23,199, and the guard of line 75 makes the debt service 0.
\<close>

theorem debt_service_negative_principal_counterexample:
  "runFinancialModel (debt_scenario\<lparr>f_equity := 3 / 2\<rparr>) =
     Inr (projr (runFinancialModel (debt_scenario\<lparr>f_equity := 3 / 2\<rparr>))) \<and>
   capex_fleet_total (projr (runFinancialModel (debt_scenario\<lparr>f_equity := 3 / 2\<rparr>)))
     * (1 - f_equity (debt_scenario\<lparr>f_equity := 3 / 2\<rparr>)) = - 100000 \<and>
   loan_amount (projr (runFinancialModel (debt_scenario\<lparr>f_equity := 3 / 2\<rparr>))) = - 100000 \<and>
   r_debt (debt_scenario\<lparr>f_equity := 3 / 2\<rparr>) = 6 \<and>
   T_loan (debt_scenario\<lparr>f_equity := 3 / 2\<rparr>) = 5 \<and>
   annual_debt_service (projr (runFinancialModel (debt_scenario\<lparr>f_equity := 3 / 2\<rparr>))) = 0 \<and>
   12 * (- 100000 * (6 / 100 / 12) / (1 - (1 + 6 / 100 / 12) powr (- (5 * 12))))
     < (- 23000 :: real) \<and>
   annual_debt_service (projr (runFinancialModel (debt_scenario\<lparr>f_equity := 3 / 2\<rparr>))) \<noteq>
     12 * (loan_amount (projr (runFinancialModel (debt_scenario\<lparr>f_equity := 3 / 2\<rparr>)))
             * (r_debt (debt_scenario\<lparr>f_equity := 3 / 2\<rparr>) / 100 / 12)
           / (1 - (1 + r_debt (debt_scenario\<lparr>f_equity := 3 / 2\<rparr>) / 100 / 12)
                    powr (- (T_loan (debt_scenario\<lparr>f_equity := 3 / 2\<rparr>) * 12))))"
proof -
  let ?w = "debt_scenario\<lparr>f_equity := 3 / 2\<rparr>"
  let ?res = "projr (runFinancialModel ?w)"
  have r: "runFinancialModel ?w = Inr ?res"
    by (rule returns_projr) (simp add: debt_scenario_def default_inputs_def)
  have f: "f_equity ?w = 3 / 2" "f_loan_fees ?w = 0" "r_debt ?w = 6" "T_loan ?w = 5"
    by (simp_all add: debt_scenario_def default_inputs_def)
  have c: "capex_fleet_total ?res = 200000"
    using single_unit_capex [OF r] by (simp add: debt_scenario_def default_inputs_def)
  have p: "capex_fleet_total ?res * (1 - f_equity ?w) = - 100000" by (simp add: c f)
  have l: "loan_amount ?res = - 100000"
    by (simp add: runFinancialModel_fields(4) [OF r] c f)
  have "annual_debt_service ?res =
      debt_service (- 100000) (loan_amount ?res) (T_loan ?w) (r_debt ?w)"
    using runFinancialModel_fields(5) [OF r] by (simp only: p)
  then have a: "annual_debt_service ?res = 0"
    by (simp add: debt_service_no_principal)
  note v = annuity_example_value
  have ne: "annual_debt_service ?res \<noteq>
     12 * (loan_amount ?res * (r_debt ?w / 100 / 12)
           / (1 - (1 + r_debt ?w / 100 / 12) powr (- (T_loan ?w * 12))))"
    unfolding a l f using v by linarith
  show ?thesis
    by (intro conjI) (fact r p l f(3) f(4) a v ne)+
qed

subsection \<open>Tipping revenue\<close>

lemma years_N_deployed:
  assumes "runFinancialModel inp = Inr res"
  shows "map N_deployed (years res) =
    map (\<lambda>y. min (N_units inp) (of_int \<lfloor>real y * units_per_year inp\<rfloor> + 1))
      (year_indices (T_project inp))"
  by (rule years_map [OF assms]) (simp add: year_values_def Let_def)

text \<open>
  C8. In every simulated year the tonnage that enters the tipping revenue is
  min (deployed units \<open>\<times>\<close> annual throughput of a unit, available waste supply), which
  never exceeds the available waste supply.
\<close>

theorem tipped_tonnage_capped:
  assumes "runFinancialModel inp = Inr res"
  shows "\<forall>yr\<in>set (years res).
           R_tip yr = W_tipped (N_deployed yr) (F_tpy res) (W_tpy inp) * R_tipping inp
                        * (1 + r_tipping inp / 100) ^ y_index yr \<and>
           W_tipped (N_deployed yr) (F_tpy res) (W_tpy inp) =
             min (N_deployed yr * F_tpy res) (W_tpy inp) \<and>
           W_tipped (N_deployed yr) (F_tpy res) (W_tpy inp) \<le> W_tpy inp"
  by (rule years_all [OF assms])
     (simp add: year_values_def Let_def W_tipped_def runFinancialModel_fields(6) [OF assms])

theorem tipped_tonnage_capped_witness:
  "runFinancialModel default_inputs = Inr (projr (runFinancialModel default_inputs)) \<and>
   years (projr (runFinancialModel default_inputs)) ! 1
     \<in> set (years (projr (runFinancialModel default_inputs))) \<and>
   N_deployed (years (projr (runFinancialModel default_inputs)) ! 1)
     * F_tpy (projr (runFinancialModel default_inputs)) = 5037 \<and>
   W_tpy default_inputs = 3000 \<and>
   W_tipped (N_deployed (years (projr (runFinancialModel default_inputs)) ! 1))
     (F_tpy (projr (runFinancialModel default_inputs))) (W_tpy default_inputs) = 3000 \<and>
   R_tip (years (projr (runFinancialModel default_inputs)) ! 1) = 3000 * 80 * (103 / 100)"
proof -
  let ?res = "projr (runFinancialModel default_inputs)"
  have r: "runFinancialModel default_inputs = Inr ?res"
    by (rule returns_projr) (simp add: default_inputs_def)
  have f: "N_units default_inputs = 3" "units_per_year default_inputs = 2"
    "T_project default_inputs = 10" "W_tpy default_inputs = 3000"
    "R_tipping default_inputs = 80" "r_tipping default_inputs = 3"
    "F_tpd default_inputs = 5" "f_avail default_inputs = 92 / 100"
    by (simp_all add: default_inputs_def)
  have idx: "year_indices 10 = [0..<11]" by (simp add: year_indices_def)
  have len: "length (years ?res) = 11"
    using years_y_index [OF r] by (metis f(3) idx length_map length_upt diff_zero)
  then have mem: "years ?res ! 1 \<in> set (years ?res)" by simp
  have "map y_index (years ?res) ! 1 = [0..<11] ! 1"
    using years_y_index [OF r] by (simp only: f idx)
  then have y: "y_index (years ?res ! 1) = 1" using len by simp
  have "map N_deployed (years ?res) ! 1 =
      map (\<lambda>y. min (3::real) (of_int \<lfloor>real y * 2\<rfloor> + 1)) [0..<11] ! 1"
    using years_N_deployed [OF r] by (simp only: f idx)
  then have n: "N_deployed (years ?res ! 1) = 3" using len by simp
  have ft: "F_tpy ?res = 1679" using runFinancialModel_fields(6) [OF r] by (simp add: f)
  from tipped_tonnage_capped [OF r] mem
  have "R_tip (years ?res ! 1) =
          W_tipped (N_deployed (years ?res ! 1)) (F_tpy ?res) (W_tpy default_inputs)
            * R_tipping default_inputs
            * (1 + r_tipping default_inputs / 100) ^ y_index (years ?res ! 1) \<and>
        W_tipped (N_deployed (years ?res ! 1)) (F_tpy ?res) (W_tpy default_inputs) =
          min (N_deployed (years ?res ! 1) * F_tpy ?res) (W_tpy default_inputs)"
    by blast
  then show ?thesis using r mem n y by (simp add: ft f)
qed

subsection \<open>Debt coverage\<close>

lemma dscr_min_none: "\<forall>yr\<in>set ys. DSCR yr = None \<Longrightarrow> dscr_min ys = None"
  by (simp add: dscr_min_def Let_def)

text \<open>
  C9. When the equity fraction is 1, the loan term is 0 or the loan amount is 0, the debt
  service is 0 in every simulated year, every DSCR is null, the minimum DSCR is null
  and no debt-coverage warning is emitted.
\<close>

theorem no_debt_no_dscr:
  assumes "runFinancialModel inp = Inr res"
    and "f_equity inp = 1 \<or> T_loan inp = 0 \<or> loan_amount res = 0"
  shows "(\<forall>yr\<in>set (years res). DS yr = 0 \<and> DSCR yr = None) \<and>
         DSCR_min res = None \<and>
         DSCR_below_1 \<notin> set (warnings res) \<and> DSCR_below_1_25 \<notin> set (warnings res)"
proof -
  have ads: "annual_debt_service res = 0"
    using assms(2)
    by (auto simp: runFinancialModel_fields(5) [OF assms(1)] debt_service_zero_loan
        debt_service_no_principal debt_service_no_term)
  have yrs: "\<forall>yr\<in>set (years res). DS yr = 0 \<and> DSCR yr = None"
    by (rule years_all [OF assms(1)]) (simp add: year_values_def Let_def ads)
  then have m: "DSCR_min res = None"
    by (simp add: runFinancialModel_fields(12) [OF assms(1)] dscr_min_none)
  have "DSCR_below_1 \<notin> set (warnings res) \<and> DSCR_below_1_25 \<notin> set (warnings res)"
    by (simp add: runFinancialModel_fields(13) [OF assms(1)] m warnings_of_def)
  with yrs m show ?thesis by simp
qed

theorem no_debt_no_dscr_witness:
  "runFinancialModel (default_inputs\<lparr>f_equity := 1\<rparr>) =
     Inr (projr (runFinancialModel (default_inputs\<lparr>f_equity := 1\<rparr>))) \<and>
   f_equity (default_inputs\<lparr>f_equity := 1\<rparr>) = 1 \<and>
   hd (years (projr (runFinancialModel (default_inputs\<lparr>f_equity := 1\<rparr>))))
     \<in> set (years (projr (runFinancialModel (default_inputs\<lparr>f_equity := 1\<rparr>)))) \<and>
   DS (hd (years (projr (runFinancialModel (default_inputs\<lparr>f_equity := 1\<rparr>))))) = 0 \<and>
   DSCR (hd (years (projr (runFinancialModel (default_inputs\<lparr>f_equity := 1\<rparr>))))) = None \<and>
   DSCR_min (projr (runFinancialModel (default_inputs\<lparr>f_equity := 1\<rparr>))) = None \<and>
   DSCR_below_1 \<notin> set (warnings (projr (runFinancialModel (default_inputs\<lparr>f_equity := 1\<rparr>)))) \<and>
   DSCR_below_1_25 \<notin> set (warnings (projr (runFinancialModel (default_inputs\<lparr>f_equity := 1\<rparr>)))) \<and>
   runFinancialModel (default_inputs\<lparr>T_loan := 0\<rparr>) =
     Inr (projr (runFinancialModel (default_inputs\<lparr>T_loan := 0\<rparr>))) \<and>
   T_loan (default_inputs\<lparr>T_loan := 0\<rparr>) = 0 \<and>
   DSCR_min (projr (runFinancialModel (default_inputs\<lparr>T_loan := 0\<rparr>))) = None"
proof -
  let ?w = "default_inputs\<lparr>f_equity := 1\<rparr>"
  let ?v = "default_inputs\<lparr>T_loan := 0\<rparr>"
  let ?res = "projr (runFinancialModel ?w)"
  have r: "runFinancialModel ?w = Inr ?res"
    by (rule returns_projr) (simp add: default_inputs_def)
  have rv: "runFinancialModel ?v = Inr (projr (runFinancialModel ?v))"
    by (rule returns_projr) (simp add: default_inputs_def)
  have h: "f_equity ?w = 1 \<or> T_loan ?w = 0 \<or> loan_amount ?res = 0" by simp
  have hv: "f_equity ?v = 1 \<or> T_loan ?v = 0 \<or> loan_amount (projr (runFinancialModel ?v)) = 0"
    by simp
  have mem: "hd (years ?res) \<in> set (years ?res)"
    using years_nonempty [OF r] by simp
  from no_debt_no_dscr [OF r h] no_debt_no_dscr [OF rv hv] mem r rv show ?thesis by simp
qed

subsection \<open>The bisection\<close>

lemma foldl_plus_sum_list:
  "foldl (\<lambda>a x. a + f x) a xs = a + sum_list (map f xs)" for a :: real
  by (induction xs arbitrary: a) simp_all

lemma npv_test_sum:
  "npv_test ys m = (\<Sum>yr\<leftarrow>ys. CF yr / (1 + m) ^ y_index yr)"
  by (simp add: npv_test_def foldl_plus_sum_list)

lemma irr_loop_keeps_hi:
  "l < h \<Longrightarrow> (\<And>m. l < m \<Longrightarrow> m < h \<Longrightarrow> 0 < npv_test ys m) \<Longrightarrow> snd (irr_loop k ys l h) = h"
proof (induction k arbitrary: l)
  case 0
  then show ?case by simp
next
  case (Suc k)
  let ?m = "(l + h) / 2"
  have m: "l < ?m" "?m < h" using Suc.prems(1) by simp_all
  then have pos: "0 < npv_test ys ?m" using Suc.prems(2) by blast
  have "snd (irr_loop k ys ?m h) = h"
    using m Suc.prems(2) by (intro Suc.IH) auto
  then show ?case using pos by (simp add: Let_def)
qed

lemma irr_loop_keeps_lo:
  "l < h \<Longrightarrow> (\<And>m. l < m \<Longrightarrow> m < h \<Longrightarrow> npv_test ys m \<le> 0) \<Longrightarrow> fst (irr_loop k ys l h) = l"
proof (induction k arbitrary: h)
  case 0
  then show ?case by simp
next
  case (Suc k)
  let ?m = "(l + h) / 2"
  have m: "l < ?m" "?m < h" using Suc.prems(1) by simp_all
  then have np: "\<not> 0 < npv_test ys ?m" using Suc.prems(2) [of ?m] by simp
  have "fst (irr_loop k ys l ?m) = l"
    using m Suc.prems(2) by (intro Suc.IH) auto
  then show ?case using np by (simp add: Let_def)
qed

lemma solve_irr_all_positive:
  assumes "\<And>m. - (1 / 2) < m \<Longrightarrow> m < 2 \<Longrightarrow> 0 < npv_test ys m"
  shows "solve_irr ys = None"
proof -
  obtain l' h' where e: "irr_loop 100 ys (- (1 / 2)) 2 = (l', h')" by (cases "irr_loop 100 ys (- (1 / 2)) 2")
  have "snd (irr_loop 100 ys (- (1 / 2)) 2) = 2"
    using assms by (intro irr_loop_keeps_hi) auto
  then have "h' = 2" by (simp add: e)
  then show ?thesis by (simp add: solve_irr_def e)
qed

lemma solve_irr_all_nonpositive:
  assumes "\<And>m. - (1 / 2) < m \<Longrightarrow> m < 2 \<Longrightarrow> npv_test ys m \<le> 0"
  shows "solve_irr ys = None"
proof -
  obtain l' h' where e: "irr_loop 100 ys (- (1 / 2)) 2 = (l', h')" by (cases "irr_loop 100 ys (- (1 / 2)) 2")
  have "fst (irr_loop 100 ys (- (1 / 2)) 2) = - (1 / 2)"
    using assms by (intro irr_loop_keeps_lo) auto
  then have "l' = - (1 / 2)" by (simp add: e)
  then show ?thesis by (simp add: solve_irr_def e)
qed

lemma sum_list_pos_real:
  fixes f :: "'a \<Rightarrow> real"
  assumes "\<forall>x\<in>set xs. 0 \<le> f x" and "\<exists>x\<in>set xs. 0 < f x"
  shows "0 < sum_list (map f xs)"
  using assms
proof (induction xs)
  case Nil
  then show ?case by simp
next
  case (Cons a xs)
  have nn: "0 \<le> sum_list (map f xs)" using Cons.prems(1) by (auto intro!: sum_list_nonneg)
  show ?case
  proof (cases "0 < f a")
    case True
    then show ?thesis using nn by simp
  next
    case False
    then have "\<exists>x\<in>set xs. 0 < f x" using Cons.prems(2) by auto
    then have "0 < sum_list (map f xs)" using Cons.IH Cons.prems(1) by simp
    moreover have "0 \<le> f a" using Cons.prems(1) by simp
    ultimately show ?thesis by simp
  qed
qed

lemma solve_irr_same_sign:
  assumes "(\<forall>yr\<in>set ys. 0 \<le> CF yr) \<or> (\<forall>yr\<in>set ys. CF yr \<le> 0)"
  shows "solve_irr ys = None"
proof -
  have nonpos: "solve_irr ys = None" if np: "\<forall>yr\<in>set ys. CF yr \<le> 0"
  proof (rule solve_irr_all_nonpositive)
    fix m :: real
    assume m: "- (1 / 2) < m" "m < 2"
    have "\<forall>yr\<in>set ys. CF yr / (1 + m) ^ y_index yr \<le> 0"
      using np m by (simp add: divide_nonpos_pos)
    then show "npv_test ys m \<le> 0"
      unfolding npv_test_sum by (auto intro!: sum_list_nonpos)
  qed
  have nonneg: "solve_irr ys = None" if nn: "\<forall>yr\<in>set ys. 0 \<le> CF yr"
  proof (cases "\<exists>yr\<in>set ys. 0 < CF yr")
    case True
    show ?thesis
    proof (rule solve_irr_all_positive)
      fix m :: real
      assume m: "- (1 / 2) < m" "m < 2"
      have "\<forall>yr\<in>set ys. 0 \<le> CF yr / (1 + m) ^ y_index yr"
        using nn m by simp
      moreover have "\<exists>yr\<in>set ys. 0 < CF yr / (1 + m) ^ y_index yr"
        using True m by (auto intro!: divide_pos_pos)
      ultimately show "0 < npv_test ys m"
        unfolding npv_test_sum by (rule sum_list_pos_real)
    qed
  next
    case False
    then have "\<forall>yr\<in>set ys. CF yr \<le> 0" by (auto simp: not_less)
    then show ?thesis by (rule nonpos)
  qed
  show ?thesis using assms nonpos nonneg by blast
qed

subsection \<open>The worked scenario\<close>

lemma year_indices_1: "year_indices 1 = [0, 1]"
  by (simp add: year_indices_def upt_rec)

lemma DCF_year_values_indep:
  "DCF (year_values inp uc ads y c) = DCF (year_values inp uc ads y 0)"
  by (simp add: year_values_def Let_def)

lemma CF_year_values_indep:
  "CF (year_values inp uc ads y c) = CF (year_values inp uc ads y 0)"
  by (simp add: year_values_def Let_def)

lemma DCF_year_values:
  "DCF (year_values inp uc ads y c) =
     CF (year_values inp uc ads y 0) / (1 + r_disc inp / 100) ^ y"
  by (simp add: year_values_def Let_def)

lemma foldl_year_step_fst:
  "fst (foldl (year_step inp uc ads) st idx) =
     fst st + (\<Sum>y\<leftarrow>idx. DCF (year_values inp uc ads y 0))"
proof (induction idx arbitrary: st)
  case Nil
  then show ?case by simp
next
  case (Cons y idx)
  show ?case
    using DCF_year_values_indep [of inp uc ads y "fst st"]
    by (simp add: Cons.IH year_step_fst)
qed

lemma NPV_sum:
  assumes "runFinancialModel inp = Inr res"
  shows "NPV res = (\<Sum>y\<leftarrow>year_indices (T_project inp).
           DCF (year_values inp (unit_capex res) (annual_debt_service res) y 0))"
  by (simp add: runFinancialModel_fields(8) [OF assms] year_loop_def foldl_year_step_fst)

lemma capex_entry_zero: "capex_entry [0] i = 0"
  by (simp add: capex_entry_def)

lemma capex_of_year_zero: "capex_of_year [0] a b = 0"
  unfolding capex_of_year_def foldl_plus_sum_list by (simp add: capex_entry_zero o_def)

lemma year_step_payback:
  "fst (snd (snd (year_step inp uc ads st y))) =
     (if fst (snd (snd st)) = None \<and> y > 0
         \<and> fst st + DCF (year_values inp uc ads y (fst st)) \<ge> 0
      then Some y else fst (snd (snd st)))"
  by (cases st) (simp add: Let_def)

lemma worked_scenario_run:
  assumes "N_units inp = 1" and "f_avail inp = 1" and "P_elec inp = 100"
    and "f_power_util inp = 1" and "R_power inp = 1 / 10" and "r_power inp = 0"
    and "C_biochp inp = 0" and "C_enexfuel inp = 0" and "C_install inp = 0"
    and "R_maint inp = 0" and "C_fuel_process inp = 0"
    and "C_insurance inp = 0" and "C_acct_mgmt inp = 0"
    and "f_equity inp = 1" and "r_disc inp = 0" and "T_project inp = 1"
    and "R_therm inp = 0" and "R_tipping inp = 0" and "P_carbon inp = 0"
    and "0 \<le> units_per_year inp"
  shows "\<exists>res. runFinancialModel inp = Inr res \<and> E_power_yr res = 876000 \<and>
           map y_index (years res) = [0, 1] \<and>
           map R_pwr (years res) = [87600, 87600] \<and>
           map CF (years res) = [87600, 87600] \<and>
           NPV res = 175200 \<and> IRR res = None \<and> payback_disc res = Some 1"
proof -
  obtain res where r: "runFinancialModel inp = Inr res"
    using runFinancialModel_returns [of inp] assms(16) by auto
  have uc: "unit_capex res = [0]"
    by (simp add: runFinancialModel_fields(1,2) [OF r] assms unit_capex_loop_def)
  have ads: "annual_debt_service res = 0"
    by (simp add: runFinancialModel_fields(5) [OF r] assms debt_service_no_principal)
  have dep: "min 1 (real_of_int \<lfloor>real y * units_per_year inp\<rfloor> + 1) = 1" for y
    using assms(20) by simp
  have dep': "min 1 (real_of_int \<lfloor>(real y - 1) * units_per_year inp\<rfloor> + 1) = 1" if "y \<noteq> 0" for y
  proof -
    have "0 \<le> (real y - 1) * units_per_year inp" using that assms(20) by simp
    then show ?thesis by simp
  qed
  have pw: "R_pwr (year_values inp [0] 0 y c) = 87600" for y c
    by (simp add: year_values_def Let_def assms(1-6) dep)
  have cf: "CF (year_values inp [0] 0 y c) = 87600" for y c
    by (simp add: year_values_def Let_def assms(1-19) dep capex_of_year_zero W_tipped_def)
  have dcf: "DCF (year_values inp [0] 0 y c) = 87600" for y c
    by (simp add: DCF_year_values cf assms(15))
  have e: "E_power_yr res = 876000"
    by (simp add: runFinancialModel_fields(7) [OF r] assms)
  have yi: "map y_index (years res) = [0, 1]"
    by (simp add: years_y_index [OF r] assms(16) year_indices_1)
  have mp: "map R_pwr (years res) = [87600, 87600]"
    using years_map [OF r, of R_pwr "\<lambda>y. 87600"] by (simp add: uc ads pw assms(16) year_indices_1)
  have mc: "map CF (years res) = [87600, 87600]"
    using years_map [OF r, of CF "\<lambda>y. 87600"] by (simp add: uc ads cf assms(16) year_indices_1)
  have npv: "NPV res = 175200"
    by (simp add: NPV_sum [OF r] uc ads dcf assms(16) year_indices_1)
  have "\<forall>yr\<in>set (years res). CF yr = 87600"
    by (rule years_all [OF r]) (simp add: uc ads cf)
  then have "(\<forall>yr\<in>set (years res). 0 \<le> CF yr) \<or> (\<forall>yr\<in>set (years res). CF yr \<le> 0)"
    by simp
  then have irr: "IRR res = None"
    by (simp only: runFinancialModel_fields(11) [OF r] solve_irr_same_sign)
  have "year_loop inp [0] 0 =
      year_step inp [0] 0 (year_step inp [0] 0 (0, 0, None, None, []) 0) 1"
    by (simp only: year_loop_def assms(16) year_indices_1 foldl.simps)
  then have pb: "payback_disc res = Some 1"
    by (simp add: runFinancialModel_fields(9) [OF r] uc ads year_step_payback year_step_fst dcf
        del: year_step.simps)
  show ?thesis by (rule exI [of _ res]) (simp only: r e yi mp mc npv irr pb simp_thms)
qed

text \<open>
  C1 (as amended). In the worked scenario (one unit, availability 1, electrical output 100,
  utilization 1, power rate 0.10, no escalation of the power rate, no capital cost, no
  operating cost, no debt, discount rate 0, horizon 1, the other revenue streams zeroed,
  a deployment rate that is not negative) the model returns annual energy 876,000, power
  revenue 87,600 in year 0 and in year 1, cash flow 87,600 in year 0 and in year 1,
  NPV 175,200, IRR null and discounted payback year 1: the unit is deployed and earns
  from year 0 on.
\<close>

theorem worked_scenario_values:
  assumes "N_units inp = 1" and "f_avail inp = 1" and "P_elec inp = 100"
    and "f_power_util inp = 1" and "R_power inp = 1 / 10" and "r_power inp = 0"
    and "C_biochp inp = 0" and "C_enexfuel inp = 0" and "C_install inp = 0"
    and "R_maint inp = 0" and "C_fuel_process inp = 0"
    and "C_insurance inp = 0" and "C_acct_mgmt inp = 0"
    and "f_equity inp = 1" and "r_disc inp = 0" and "T_project inp = 1"
    and "R_therm inp = 0" and "R_tipping inp = 0" and "P_carbon inp = 0"
    and "0 \<le> units_per_year inp"
  shows "\<exists>res. runFinancialModel inp = Inr res \<and> E_power_yr res = 876000 \<and>
           map y_index (years res) = [0, 1] \<and>
           map R_pwr (years res) = [87600, 87600] \<and>
           map CF (years res) = [87600, 87600] \<and>
           NPV res = 175200 \<and> IRR res = None \<and> payback_disc res = Some 1"
  using assms by (rule worked_scenario_run)

lemma worked_scenario_fields:
  "N_units worked_scenario = 1" "f_avail worked_scenario = 1" "P_elec worked_scenario = 100"
  "f_power_util worked_scenario = 1" "R_power worked_scenario = 1 / 10"
  "r_power worked_scenario = 0"
  "C_biochp worked_scenario = 0" "C_enexfuel worked_scenario = 0"
  "C_install worked_scenario = 0"
  "R_maint worked_scenario = 0" "C_fuel_process worked_scenario = 0"
  "C_insurance worked_scenario = 0" "C_acct_mgmt worked_scenario = 0"
  "f_equity worked_scenario = 1" "r_disc worked_scenario = 0" "T_project worked_scenario = 1"
  "R_therm worked_scenario = 0" "R_tipping worked_scenario = 0" "P_carbon worked_scenario = 0"
  "0 \<le> units_per_year worked_scenario"
  by (simp_all add: worked_scenario_def)

theorem worked_scenario_values_witness:
  "N_units worked_scenario = 1 \<and> f_avail worked_scenario = 1 \<and> P_elec worked_scenario = 100 \<and>
   f_power_util worked_scenario = 1 \<and> R_power worked_scenario = 1 / 10 \<and>
   r_power worked_scenario = 0 \<and> C_biochp worked_scenario = 0 \<and>
   C_enexfuel worked_scenario = 0 \<and> C_install worked_scenario = 0 \<and>
   R_maint worked_scenario = 0 \<and> C_fuel_process worked_scenario = 0 \<and>
   C_insurance worked_scenario = 0 \<and> C_acct_mgmt worked_scenario = 0 \<and>
   f_equity worked_scenario = 1 \<and> r_disc worked_scenario = 0 \<and>
   T_project worked_scenario = 1 \<and> R_therm worked_scenario = 0 \<and>
   R_tipping worked_scenario = 0 \<and> P_carbon worked_scenario = 0 \<and>
   0 \<le> units_per_year worked_scenario \<and>
   runFinancialModel worked_scenario = Inr (projr (runFinancialModel worked_scenario)) \<and>
   E_power_yr (projr (runFinancialModel worked_scenario)) = 876000 \<and>
   map R_pwr (years (projr (runFinancialModel worked_scenario))) = [87600, 87600] \<and>
   map CF (years (projr (runFinancialModel worked_scenario))) = [87600, 87600] \<and>
   NPV (projr (runFinancialModel worked_scenario)) = 175200 \<and>
   IRR (projr (runFinancialModel worked_scenario)) = None \<and>
   payback_disc (projr (runFinancialModel worked_scenario)) = Some 1"
proof -
  obtain res where res: "runFinancialModel worked_scenario = Inr res \<and> E_power_yr res = 876000 \<and>
           map y_index (years res) = [0, 1] \<and>
           map R_pwr (years res) = [87600, 87600] \<and>
           map CF (years res) = [87600, 87600] \<and>
           NPV res = 175200 \<and> IRR res = None \<and> payback_disc res = Some 1"
    using worked_scenario_values [OF worked_scenario_fields] ..
  then have "projr (runFinancialModel worked_scenario) = res" by simp
  with res show ?thesis by (simp add: worked_scenario_fields)
qed

text \<open>
  The claim as stated gives year-0 cash flow 0 and NPV 87,600; in the worked scenario the
  code returns 87,600 and 175,200.
\<close>

theorem worked_scenario_counterexample:
  "runFinancialModel worked_scenario = Inr (projr (runFinancialModel worked_scenario)) \<and>
   y_index (years (projr (runFinancialModel worked_scenario)) ! 0) = 0 \<and>
   CF (years (projr (runFinancialModel worked_scenario)) ! 0) = 87600 \<and>
   NPV (projr (runFinancialModel worked_scenario)) = 175200 \<and>
   \<not> (CF (years (projr (runFinancialModel worked_scenario)) ! 0) = 0 \<and>
      NPV (projr (runFinancialModel worked_scenario)) = 87600)"
proof -
  obtain res where all: "runFinancialModel worked_scenario = Inr res \<and> E_power_yr res = 876000 \<and>
           map y_index (years res) = [0, 1] \<and>
           map R_pwr (years res) = [87600, 87600] \<and>
           map CF (years res) = [87600, 87600] \<and>
           NPV res = 175200 \<and> IRR res = None \<and> payback_disc res = Some 1"
    using worked_scenario_run [OF worked_scenario_fields] ..
  then have res: "runFinancialModel worked_scenario = Inr res"
    and yi: "map y_index (years res) = [0, 1]"
    and cf: "map CF (years res) = [87600, 87600]" and npv: "NPV res = 175200"
    by simp_all
  have p: "projr (runFinancialModel worked_scenario) = res" using res by simp
  have "length (map CF (years res)) = 2" by (simp only: cf) simp
  then have len: "length (years res) = 2" by simp
  have "map CF (years res) ! 0 = 87600" by (simp add: cf)
  then have c0: "CF (years res ! 0) = 87600" using len by simp
  have "map y_index (years res) ! 0 = 0" by (simp add: yi)
  then have y0: "y_index (years res ! 0) = 0" using len by simp
  show ?thesis using res by (simp add: p c0 y0 npv)
qed

subsection \<open>IRR without a sign change\<close>

text \<open>
  C4 (as amended). The IRR is null whenever the NPV-at-rate function is positive at every
  rate of \<open>[-0.5, 2]\<close>, or not positive at every rate of \<open>[-0.5, 2]\<close> (the solver's test is
  \<open>NPV > 0\<close>); in particular when the cash flows of all years share a sign.
\<close>

theorem irr_null_without_sign_change:
  assumes "runFinancialModel inp = Inr res"
  shows "((\<forall>r. - (1 / 2) \<le> r \<and> r \<le> 2 \<longrightarrow>
              0 < (\<Sum>yr\<leftarrow>years res. CF yr / (1 + r) ^ y_index yr)) \<or>
          (\<forall>r. - (1 / 2) \<le> r \<and> r \<le> 2 \<longrightarrow>
              (\<Sum>yr\<leftarrow>years res. CF yr / (1 + r) ^ y_index yr) \<le> 0)
            \<longrightarrow> IRR res = None) \<and>
         ((\<forall>yr\<in>set (years res). 0 \<le> CF yr) \<or> (\<forall>yr\<in>set (years res). CF yr \<le> 0)
            \<longrightarrow> IRR res = None)"
proof -
  have irr: "IRR res = solve_irr (years res)"
    by (rule runFinancialModel_fields(11) [OF assms])
  have pos: "IRR res = None"
    if "\<forall>r. - (1 / 2) \<le> r \<and> r \<le> 2 \<longrightarrow> 0 < (\<Sum>yr\<leftarrow>years res. CF yr / (1 + r) ^ y_index yr)"
    unfolding irr using that by (intro solve_irr_all_positive) (simp add: npv_test_sum)
  have nonpos: "IRR res = None"
    if "\<forall>r. - (1 / 2) \<le> r \<and> r \<le> 2 \<longrightarrow> (\<Sum>yr\<leftarrow>years res. CF yr / (1 + r) ^ y_index yr) \<le> 0"
    unfolding irr using that by (intro solve_irr_all_nonpositive) (simp add: npv_test_sum)
  have same: "IRR res = None"
    if "(\<forall>yr\<in>set (years res). 0 \<le> CF yr) \<or> (\<forall>yr\<in>set (years res). CF yr \<le> 0)"
    unfolding irr using that by (rule solve_irr_same_sign)
  show ?thesis using pos nonpos same by blast
qed

theorem irr_null_without_sign_change_witness:
  "runFinancialModel worked_scenario = Inr (projr (runFinancialModel worked_scenario)) \<and>
   map CF (years (projr (runFinancialModel worked_scenario))) = [87600, 87600] \<and>
   map y_index (years (projr (runFinancialModel worked_scenario))) = [0, 1] \<and>
   - (1 / 2) \<le> (0::real) \<and> (0::real) \<le> 2 \<and>
   0 < (\<Sum>yr\<leftarrow>years (projr (runFinancialModel worked_scenario)).
          CF yr / (1 + 0) ^ y_index yr) \<and>
   IRR (projr (runFinancialModel worked_scenario)) = None"
proof -
  let ?res = "projr (runFinancialModel worked_scenario)"
  obtain res where all: "runFinancialModel worked_scenario = Inr res \<and> E_power_yr res = 876000 \<and>
           map y_index (years res) = [0, 1] \<and>
           map R_pwr (years res) = [87600, 87600] \<and>
           map CF (years res) = [87600, 87600] \<and>
           NPV res = 175200 \<and> IRR res = None \<and> payback_disc res = Some 1"
    using worked_scenario_run [OF worked_scenario_fields] ..
  then have p: "?res = res" by simp
  have r: "runFinancialModel worked_scenario = Inr ?res" using all by simp
  have cf: "map CF (years ?res) = [87600, 87600]"
    and yi: "map y_index (years ?res) = [0, 1]"
    unfolding p using all by simp_all
  have "\<forall>c\<in>set (map CF (years ?res)). 0 \<le> c" by (simp only: cf) simp
  then have "\<forall>yr\<in>set (years ?res). 0 \<le> CF yr" by simp
  then have h: "(\<forall>yr\<in>set (years ?res). 0 \<le> CF yr) \<or> (\<forall>yr\<in>set (years ?res). CF yr \<le> 0)" ..
  from irr_null_without_sign_change [OF r] h have irr: "IRR ?res = None" by blast
  have "(\<Sum>yr\<leftarrow>years ?res. CF yr / (1 + 0) ^ y_index yr) = sum_list (map CF (years ?res))"
    by simp
  then have s: "0 < (\<Sum>yr\<leftarrow>years ?res. CF yr / (1 + 0) ^ y_index yr)" by (simp only: cf) simp
  show ?thesis using r cf yi s irr by simp
qed

lemma year_indices_2: "year_indices 2 = [0, 1, 2]"
  by (simp add: year_indices_def upt_rec)

lemma npv_test_three_years:
  assumes "map y_index ys = [0, 1, 2]" and "map CF ys = [a, b, c]"
  shows "npv_test ys m = a + b / (1 + m) + c / (1 + m) ^ 2"
proof -
  from assms obtain y0 y1 y2 where ys: "ys = [y0, y1, y2]"
    by (cases ys; cases "tl ys"; cases "tl (tl ys)") auto
  show ?thesis using assms by (simp add: ys npv_test_sum)
qed

lemma irr_loop_touch:
  assumes "\<And>m. npv_test ys m = 140160 + (- 490560) / (1 + m) + 429240 / (1 + m) ^ 2"
  shows "irr_loop 100 ys (- (1 / 2)) 2 = (49147 / 65536, 3 / 4)"
  by (simp add: assms Let_def numeral_eq_Suc)

lemma touching_npv_nonneg:
  "0 \<le> 140160 + (- 490560) / (1 + r) + 429240 / (1 + r) ^ 2" for r :: real
proof -
  define x where "x = inverse (1 + r)"
  have a: "(- 490560) / (1 + r) = - 490560 * x" by (simp add: x_def divide_inverse)
  have b: "429240 / (1 + r) ^ 2 = 429240 * x ^ 2"
    by (simp add: x_def divide_inverse power_inverse)
  have "140160 + - 490560 * x + 429240 * x ^ 2 = 8760 * (4 - 7 * x) ^ 2"
    by (simp add: power2_eq_square algebra_simps)
  then have "140160 + (- 490560) / (1 + r) + 429240 / (1 + r) ^ 2 = 8760 * (4 - 7 * x) ^ 2"
    by (simp only: a b)
  then show ?thesis by simp
qed

lemma touch_scenario_run:
  assumes "runFinancialModel touch_scenario = Inr res"
  shows "map y_index (years res) = [0, 1, 2] \<and>
         map CF (years res) = [140160, - 490560, 429240] \<and>
         IRR res = Some (98299 / 131072)"
proof -
  let ?w = "touch_scenario"
  have T: "T_project ?w = 2" by (simp add: touch_scenario_def)
  have uc: "unit_capex res = [0]"
    by (simp add: runFinancialModel_fields(1,2) [OF assms] touch_scenario_def
        worked_scenario_def unit_capex_loop_def)
  have ads: "annual_debt_service res = 0"
    by (simp add: runFinancialModel_fields(5) [OF assms] touch_scenario_def
        worked_scenario_def debt_service_no_principal)
  have cf0: "CF (year_values ?w [0] 0 0 c) = 140160" for c
    by (simp add: year_values_def Let_def touch_scenario_def worked_scenario_def
        capex_of_year_zero W_tipped_def)
  have cf1: "CF (year_values ?w [0] 0 (Suc 0) c) = - 490560" for c
    by (simp add: year_values_def Let_def touch_scenario_def worked_scenario_def
        capex_of_year_zero W_tipped_def)
  have cf2: "CF (year_values ?w [0] 0 2 c) = 429240" for c
    by (simp add: year_values_def Let_def touch_scenario_def worked_scenario_def
        capex_of_year_zero W_tipped_def power2_eq_square)
  have yi: "map y_index (years res) = [0, 1, 2]"
    using years_y_index [OF assms] by (simp only: T year_indices_2)
  have "map CF (years res) = map (\<lambda>y. CF (year_values ?w [0] 0 y 0)) [0, 1, 2]"
    using years_map [OF assms, of CF "\<lambda>y. CF (year_values ?w [0] 0 y 0)"]
      CF_year_values_indep [of ?w "[0]" 0]
    by (simp only: T year_indices_2 uc ads)
  then have mc: "map CF (years res) = [140160, - 490560, 429240]"
    by (simp add: cf0 cf1 cf2)
  have "npv_test (years res) m = 140160 + (- 490560) / (1 + m) + 429240 / (1 + m) ^ 2" for m
    using yi mc by (rule npv_test_three_years)
  then have "irr_loop 100 (years res) (- (1 / 2)) 2 = (49147 / 65536, 3 / 4)"
    by (rule irr_loop_touch)
  then have "solve_irr (years res) = Some (98299 / 131072)"
    by (simp add: solve_irr_def)
  then have irr: "IRR res = Some (98299 / 131072)"
    by (simp only: runFinancialModel_fields(11) [OF assms])
  show ?thesis using yi mc irr by simp
qed

text \<open>
  The claim as stated asks only for no sign change. The cash flows 140,160, -490,560 and
  429,240 give the NPV \<open>8760 \<sdot> (4 - 7 / (1 + r))\<^sup>2\<close>, which is never negative and is zero at
  \<open>r = 0.75\<close>, the first midpoint of the bisection: there the test \<open>NPV > 0\<close> fails, the upper
  end moves, and the solver returns 98299/131072.
\<close>

theorem irr_at_touching_root_counterexample:
  "runFinancialModel touch_scenario = Inr (projr (runFinancialModel touch_scenario)) \<and>
   map y_index (years (projr (runFinancialModel touch_scenario))) = [0, 1, 2] \<and>
   map CF (years (projr (runFinancialModel touch_scenario))) = [140160, - 490560, 429240] \<and>
   (\<forall>r. 0 \<le> (\<Sum>yr\<leftarrow>years (projr (runFinancialModel touch_scenario)).
                 CF yr / (1 + r) ^ y_index yr)) \<and>
   IRR (projr (runFinancialModel touch_scenario)) = Some (98299 / 131072) \<and>
   IRR (projr (runFinancialModel touch_scenario)) \<noteq> None"
proof -
  let ?res = "projr (runFinancialModel touch_scenario)"
  have r: "runFinancialModel touch_scenario = Inr ?res"
    by (rule returns_projr) (simp add: touch_scenario_def)
  note t = touch_scenario_run [OF r]
  have s: "(\<Sum>yr\<leftarrow>years ?res. CF yr / (1 + m) ^ y_index yr)
      = 140160 + (- 490560) / (1 + m) + 429240 / (1 + m) ^ 2" for m
    using npv_test_three_years [of "years ?res" 140160 "- 490560" 429240 m] t
    by (simp add: npv_test_sum)
  have nn: "\<forall>m. 0 \<le> (\<Sum>yr\<leftarrow>years ?res. CF yr / (1 + m) ^ y_index yr)"
    unfolding s using touching_npv_nonneg by blast
  show ?thesis using r t nn by simp
qed

subsection \<open>A horizon of less than a year\<close>

text \<open>
  C10. When the horizon is 0 (more generally, below 1) only year 0 is simulated, and the
  year-1 fields of the result (revenue per unit, in total and by stream, and the year-1
  revenue, operating cost and EBITDA) are computed from the record of year 0.
\<close>

theorem year1_fields_fall_back_to_year0:
  assumes "0 \<le> T_project inp" and "T_project inp < 1"
  shows "\<exists>res yr0. runFinancialModel inp = Inr res \<and> years res = [yr0] \<and> y_index yr0 = 0 \<and>
      R_per_unit res = (if N_deployed yr0 > 0 then R_total yr0 / N_deployed yr0 else 0) \<and>
      R_per_unit_power res = (if N_deployed yr0 > 0 then R_pwr yr0 / N_deployed yr0 else 0) \<and>
      R_per_unit_therm res = (if N_deployed yr0 > 0 then R_thrm yr0 / N_deployed yr0 else 0) \<and>
      R_per_unit_tip res = (if N_deployed yr0 > 0 then R_tip yr0 / N_deployed yr0 else 0) \<and>
      R_per_unit_carbon res = (if N_deployed yr0 > 0 then R_crb yr0 / N_deployed yr0 else 0) \<and>
      yr1_revenue res = R_total yr0 \<and> yr1_opex res = OPEX yr0 \<and> yr1_ebitda res = EBITDA yr0"
proof -
  obtain res where r: "runFinancialModel inp = Inr res"
    using runFinancialModel_returns [OF assms(1)] by blast
  have "\<lfloor>T_project inp\<rfloor> = 0" using assms by (simp add: floor_eq_iff)
  then have "year_indices (T_project inp) = [0]" using assms(1) by (simp add: year_indices_def)
  then have yi: "map y_index (years res) = [0]" using years_y_index [OF r] by simp
  then obtain yr0 where ys: "years res = [yr0]" by (cases "years res") auto
  have y0: "y_index yr0 = 0" using yi ys by simp
  have "yr1_of (years res) = Some yr0" by (simp add: ys yr1_of_def)
  with runFinancialModel_yr1 [OF r] have
      "R_per_unit res = (if N_deployed yr0 > 0 then R_total yr0 / N_deployed yr0 else 0) \<and>
      R_per_unit_power res = (if N_deployed yr0 > 0 then R_pwr yr0 / N_deployed yr0 else 0) \<and>
      R_per_unit_therm res = (if N_deployed yr0 > 0 then R_thrm yr0 / N_deployed yr0 else 0) \<and>
      R_per_unit_tip res = (if N_deployed yr0 > 0 then R_tip yr0 / N_deployed yr0 else 0) \<and>
      R_per_unit_carbon res = (if N_deployed yr0 > 0 then R_crb yr0 / N_deployed yr0 else 0) \<and>
      yr1_revenue res = R_total yr0 \<and> yr1_opex res = OPEX yr0 \<and> yr1_ebitda res = EBITDA yr0"
    by auto
  then show ?thesis using r ys y0 by (intro exI [of _ res] exI [of _ yr0]) simp
qed

theorem year1_fields_fall_back_to_year0_witness:
  "0 \<le> T_project (default_inputs\<lparr>T_project := 0\<rparr>) \<and>
   T_project (default_inputs\<lparr>T_project := 0\<rparr>) < 1 \<and>
   runFinancialModel (default_inputs\<lparr>T_project := 0\<rparr>) =
     Inr (projr (runFinancialModel (default_inputs\<lparr>T_project := 0\<rparr>))) \<and>
   length (years (projr (runFinancialModel (default_inputs\<lparr>T_project := 0\<rparr>)))) = 1 \<and>
   y_index (hd (years (projr (runFinancialModel (default_inputs\<lparr>T_project := 0\<rparr>))))) = 0 \<and>
   yr1_revenue (projr (runFinancialModel (default_inputs\<lparr>T_project := 0\<rparr>))) =
     R_total (hd (years (projr (runFinancialModel (default_inputs\<lparr>T_project := 0\<rparr>))))) \<and>
   yr1_opex (projr (runFinancialModel (default_inputs\<lparr>T_project := 0\<rparr>))) =
     OPEX (hd (years (projr (runFinancialModel (default_inputs\<lparr>T_project := 0\<rparr>))))) \<and>
   yr1_ebitda (projr (runFinancialModel (default_inputs\<lparr>T_project := 0\<rparr>))) =
     EBITDA (hd (years (projr (runFinancialModel (default_inputs\<lparr>T_project := 0\<rparr>)))))"
proof -
  let ?w = "default_inputs\<lparr>T_project := 0\<rparr>"
  have h: "0 \<le> T_project ?w" "T_project ?w < 1" by simp_all
  obtain res where "\<exists>yr0. runFinancialModel ?w = Inr res \<and> years res = [yr0] \<and> y_index yr0 = 0 \<and>
      R_per_unit res = (if N_deployed yr0 > 0 then R_total yr0 / N_deployed yr0 else 0) \<and>
      R_per_unit_power res = (if N_deployed yr0 > 0 then R_pwr yr0 / N_deployed yr0 else 0) \<and>
      R_per_unit_therm res = (if N_deployed yr0 > 0 then R_thrm yr0 / N_deployed yr0 else 0) \<and>
      R_per_unit_tip res = (if N_deployed yr0 > 0 then R_tip yr0 / N_deployed yr0 else 0) \<and>
      R_per_unit_carbon res = (if N_deployed yr0 > 0 then R_crb yr0 / N_deployed yr0 else 0) \<and>
      yr1_revenue res = R_total yr0 \<and> yr1_opex res = OPEX yr0 \<and> yr1_ebitda res = EBITDA yr0"
    using year1_fields_fall_back_to_year0 [OF h] ..
  then obtain yr0 where "runFinancialModel ?w = Inr res \<and> years res = [yr0] \<and> y_index yr0 = 0 \<and>
      R_per_unit res = (if N_deployed yr0 > 0 then R_total yr0 / N_deployed yr0 else 0) \<and>
      R_per_unit_power res = (if N_deployed yr0 > 0 then R_pwr yr0 / N_deployed yr0 else 0) \<and>
      R_per_unit_therm res = (if N_deployed yr0 > 0 then R_thrm yr0 / N_deployed yr0 else 0) \<and>
      R_per_unit_tip res = (if N_deployed yr0 > 0 then R_tip yr0 / N_deployed yr0 else 0) \<and>
      R_per_unit_carbon res = (if N_deployed yr0 > 0 then R_crb yr0 / N_deployed yr0 else 0) \<and>
      yr1_revenue res = R_total yr0 \<and> yr1_opex res = OPEX yr0 \<and> yr1_ebitda res = EBITDA yr0" ..
  then have a: "runFinancialModel ?w = Inr res" "years res = [yr0]" "y_index yr0 = 0"
      "yr1_revenue res = R_total yr0" "yr1_opex res = OPEX yr0" "yr1_ebitda res = EBITDA yr0"
    by simp_all
  have p: "projr (runFinancialModel ?w) = res" using a(1) by simp
  show ?thesis unfolding p using a h by simp
qed

subsection \<open>Sensitivity\<close>












subsection \<open>NPV and the discount rate\<close>

lemma sum_list_strict_mono_real:
  fixes f g :: "'a \<Rightarrow> real"
  assumes "\<forall>x\<in>set xs. f x \<le> g x" and "\<exists>x\<in>set xs. f x < g x"
  shows "sum_list (map f xs) < sum_list (map g xs)"
proof -
  have "0 < sum_list (map (\<lambda>x. g x - f x) xs)"
    using assms by (intro sum_list_pos_real) auto
  then show ?thesis by (simp add: sum_list_subtractf)
qed

lemma CF_year_values_r_disc:
  "CF (year_values (inp\<lparr>r_disc := r\<rparr>) uc ads y c) = CF (year_values inp uc ads y c)"
  by (simp add: year_values_def Let_def)

lemma NPV_formula:
  assumes "runFinancialModel inp = Inr res"
  shows "NPV res = (\<Sum>y\<leftarrow>year_indices (T_project inp).
           CF (year_values inp (unit_capex res) (annual_debt_service res) y 0)
             / (1 + r_disc inp / 100) ^ y)"
  unfolding NPV_sum [OF assms] by (simp add: DCF_year_values)

lemma years_index_CF:
  assumes "runFinancialModel inp = Inr res"
  shows "map (\<lambda>yr. (y_index yr, CF yr)) (years res) =
    map (\<lambda>y. (y, CF (year_values inp (unit_capex res) (annual_debt_service res) y 0)))
      (year_indices (T_project inp))"
  by (rule years_map [OF assms]) (simp add: year_values_def Let_def)

lemma r_disc_same_capex:
  assumes "runFinancialModel (inp\<lparr>r_disc := r1\<rparr>) = Inr res1"
    and "runFinancialModel (inp\<lparr>r_disc := r2\<rparr>) = Inr res2"
  shows "unit_capex res2 = unit_capex res1"
    and "annual_debt_service res2 = annual_debt_service res1"
proof -
  show u: "unit_capex res2 = unit_capex res1"
    by (simp add: runFinancialModel_fields(1,2) [OF assms(1)]
        runFinancialModel_fields(1,2) [OF assms(2)])
  show "annual_debt_service res2 = annual_debt_service res1"
    by (simp add: runFinancialModel_fields(3,4,5) [OF assms(1)]
        runFinancialModel_fields(3,4,5) [OF assms(2)] u)
qed

lemma loss_scenario_run:
  assumes "runFinancialModel (loss_scenario\<lparr>r_disc := r\<rparr>) = Inr res"
  shows "map y_index (years res) = [0, 1] \<and> map CF (years res) = [- 1000, - 1030] \<and>
         NPV res = - 1000 - 1030 / (1 + r / 100)"
proof -
  let ?w = "loss_scenario\<lparr>r_disc := r\<rparr>"
  have T: "T_project ?w = 1" by (simp add: loss_scenario_def worked_scenario_def)
  have uc: "unit_capex res = [0]"
    by (simp add: runFinancialModel_fields(1,2) [OF assms] loss_scenario_def
        worked_scenario_def unit_capex_loop_def)
  have ads: "annual_debt_service res = 0"
    by (simp add: runFinancialModel_fields(5) [OF assms] loss_scenario_def
        worked_scenario_def debt_service_no_principal)
  have cf0: "CF (year_values ?w [0] 0 0 c) = - 1000" for c
    by (simp add: year_values_def Let_def loss_scenario_def worked_scenario_def
        capex_of_year_zero W_tipped_def)
  have cf1: "CF (year_values ?w [0] 0 (Suc 0) c) = - 1030" for c
    by (simp add: year_values_def Let_def loss_scenario_def worked_scenario_def
        capex_of_year_zero W_tipped_def)
  have yi: "map y_index (years res) = [0, 1]"
    using years_y_index [OF assms] by (simp only: T year_indices_1)
  have "map CF (years res) = map (\<lambda>y. CF (year_values ?w [0] 0 y 0)) [0, 1]"
    using years_map [OF assms, of CF "\<lambda>y. CF (year_values ?w [0] 0 y 0)"]
      CF_year_values_indep [of ?w "[0]" 0]
    by (simp only: T year_indices_1 uc ads)
  then have mc: "map CF (years res) = [- 1000, - 1030]" by (simp add: cf0 cf1)
  have "r_disc ?w = r" by simp
  then have npv: "NPV res = - 1000 - 1030 / (1 + r / 100)"
    using NPV_formula [OF assms] by (simp add: T year_indices_1 uc ads cf0 cf1)
  show ?thesis using yi mc npv by simp
qed

text \<open>
  C2 (as amended). Holding every other input fixed, the cash flows do not depend on the
  discount rate, and when the cash flows after year 0 are all non-negative and one of
  them is positive, the NPV is strictly decreasing in the discount rate, over rates above
  -100%.
\<close>

theorem npv_decreasing_in_discount_rate:
  assumes r1: "runFinancialModel (inp\<lparr>r_disc := r1\<rparr>) = Inr res1"
    and r2: "runFinancialModel (inp\<lparr>r_disc := r2\<rparr>) = Inr res2"
    and lt: "- 100 < r1" "r1 < r2"
    and nn: "\<forall>yr\<in>set (years res1). 0 < y_index yr \<longrightarrow> 0 \<le> CF yr"
    and ps: "\<exists>yr\<in>set (years res1). 0 < y_index yr \<and> 0 < CF yr"
  shows "map CF (years res2) = map CF (years res1) \<and> NPV res2 < NPV res1"
proof -
  let ?uc = "unit_capex res1"
  let ?ads = "annual_debt_service res1"
  let ?idx = "year_indices (T_project inp)"
  let ?a = "\<lambda>y. CF (year_values inp ?uc ?ads y 0)"
  let ?q1 = "1 + r1 / 100"
  let ?q2 = "1 + r2 / 100"
  note same = r_disc_same_capex [OF r1 r2]
  have p1: "map (\<lambda>yr. (y_index yr, CF yr)) (years res1) = map (\<lambda>y. (y, ?a y)) ?idx"
    using years_index_CF [OF r1] by (simp add: CF_year_values_r_disc)
  have p2: "map (\<lambda>yr. (y_index yr, CF yr)) (years res2) = map (\<lambda>y. (y, ?a y)) ?idx"
    using years_index_CF [OF r2] by (simp add: CF_year_values_r_disc same)
  have "map snd (map (\<lambda>yr. (y_index yr, CF yr)) (years res2)) =
        map snd (map (\<lambda>yr. (y_index yr, CF yr)) (years res1))"
    by (simp only: p1 p2)
  then have cfs: "map CF (years res2) = map CF (years res1)" by (simp add: o_def)
  have n1: "NPV res1 = (\<Sum>y\<leftarrow>?idx. ?a y / ?q1 ^ y)"
    using NPV_formula [OF r1] by (simp add: CF_year_values_r_disc)
  have n2: "NPV res2 = (\<Sum>y\<leftarrow>?idx. ?a y / ?q2 ^ y)"
    using NPV_formula [OF r2] by (simp add: CF_year_values_r_disc same)
  have img: "(\<lambda>yr. (y_index yr, CF yr)) ` set (years res1) = (\<lambda>y. (y, ?a y)) ` set ?idx"
    using arg_cong [OF p1, of set] by simp
  have a_nn: "0 \<le> ?a y" if "y \<in> set ?idx" "0 < y" for y
  proof -
    have "(y, ?a y) \<in> (\<lambda>yr. (y_index yr, CF yr)) ` set (years res1)"
      using that(1) unfolding img by blast
    then obtain yr where "yr \<in> set (years res1)" "y_index yr = y" "CF yr = ?a y" by auto
    then show ?thesis using nn that(2) by auto
  qed
  obtain yr where yr: "yr \<in> set (years res1)" "0 < y_index yr" "0 < CF yr"
    using ps by blast
  then have "(y_index yr, CF yr) \<in> (\<lambda>y. (y, ?a y)) ` set ?idx"
    unfolding img [symmetric] by blast
  then have a_ps: "\<exists>y\<in>set ?idx. 0 < y \<and> 0 < ?a y" using yr by auto
  have q: "0 < ?q1" "?q1 < ?q2" using lt by simp_all
  have pw: "?q1 ^ y < ?q2 ^ y" if "0 < y" for y
    using q that by (intro power_strict_mono) simp_all
  have le: "\<forall>y\<in>set ?idx. ?a y / ?q2 ^ y \<le> ?a y / ?q1 ^ y"
  proof
    fix y assume y: "y \<in> set ?idx"
    show "?a y / ?q2 ^ y \<le> ?a y / ?q1 ^ y"
    proof (cases "y = 0")
      case True
      then show ?thesis by simp
    next
      case False
      then have "0 \<le> ?a y" "?q1 ^ y \<le> ?q2 ^ y" "0 < ?q1 ^ y"
        using a_nn [OF y] pw [of y] q by simp_all
      then show ?thesis by (intro divide_left_mono) simp_all
    qed
  qed
  have less: "\<exists>y\<in>set ?idx. ?a y / ?q2 ^ y < ?a y / ?q1 ^ y"
  proof -
    obtain y where y: "y \<in> set ?idx" "0 < y" "0 < ?a y" using a_ps by blast
    have "?a y / ?q2 ^ y < ?a y / ?q1 ^ y"
      using y pw [of y] q by (intro divide_strict_left_mono) simp_all
    then show ?thesis using y by blast
  qed
  have "NPV res2 < NPV res1"
    unfolding n1 n2 using le less by (rule sum_list_strict_mono_real)
  then show ?thesis using cfs by simp
qed

theorem npv_decreasing_in_discount_rate_witness:
  "runFinancialModel (worked_scenario\<lparr>r_disc := 0\<rparr>) =
     Inr (projr (runFinancialModel (worked_scenario\<lparr>r_disc := 0\<rparr>))) \<and>
   runFinancialModel (worked_scenario\<lparr>r_disc := 100\<rparr>) =
     Inr (projr (runFinancialModel (worked_scenario\<lparr>r_disc := 100\<rparr>))) \<and>
   - 100 < (0::real) \<and> (0::real) < 100 \<and>
   map y_index (years (projr (runFinancialModel (worked_scenario\<lparr>r_disc := 0\<rparr>)))) = [0, 1] \<and>
   map CF (years (projr (runFinancialModel (worked_scenario\<lparr>r_disc := 0\<rparr>))))
     = [87600, 87600] \<and>
   map CF (years (projr (runFinancialModel (worked_scenario\<lparr>r_disc := 100\<rparr>))))
     = [87600, 87600] \<and>
   NPV (projr (runFinancialModel (worked_scenario\<lparr>r_disc := 100\<rparr>)))
     < NPV (projr (runFinancialModel (worked_scenario\<lparr>r_disc := 0\<rparr>)))"
proof -
  let ?a = "worked_scenario\<lparr>r_disc := 0\<rparr>"
  let ?b = "worked_scenario\<lparr>r_disc := 100\<rparr>"
  let ?ra = "projr (runFinancialModel ?a)"
  let ?rb = "projr (runFinancialModel ?b)"
  have ra: "runFinancialModel ?a = Inr ?ra"
    by (rule returns_projr) (simp add: worked_scenario_def)
  have rb: "runFinancialModel ?b = Inr ?rb"
    by (rule returns_projr) (simp add: worked_scenario_def)
  have "?a = worked_scenario" by (simp add: worked_scenario_def)
  then obtain res where all: "runFinancialModel ?a = Inr res \<and> E_power_yr res = 876000 \<and>
           map y_index (years res) = [0, 1] \<and>
           map R_pwr (years res) = [87600, 87600] \<and>
           map CF (years res) = [87600, 87600] \<and>
           NPV res = 175200 \<and> IRR res = None \<and> payback_disc res = Some 1"
    using worked_scenario_run [OF worked_scenario_fields] by auto
  then have p: "?ra = res" by simp
  have yi: "map y_index (years ?ra) = [0, 1]" and cf: "map CF (years ?ra) = [87600, 87600]"
    unfolding p using all by simp_all
  have len: "length (years ?ra) = 2"
    using arg_cong [OF cf, of length] by simp
  have "\<forall>c\<in>set (map CF (years ?ra)). 0 \<le> c" by (simp only: cf) simp
  then have nn: "\<forall>yr\<in>set (years ?ra). 0 < y_index yr \<longrightarrow> 0 \<le> CF yr" by simp
  have "map y_index (years ?ra) ! 1 = 1" "map CF (years ?ra) ! 1 = 87600"
    by (simp_all only: yi cf) simp_all
  then have "0 < y_index (years ?ra ! 1) \<and> 0 < CF (years ?ra ! 1)" using len by simp
  moreover have "years ?ra ! 1 \<in> set (years ?ra)" using len by simp
  ultimately have ps: "\<exists>yr\<in>set (years ?ra). 0 < y_index yr \<and> 0 < CF yr" by blast
  have lt: "- 100 < (0::real)" "(0::real) < 100" by simp_all
  note t = npv_decreasing_in_discount_rate [OF ra rb lt nn ps]
  show ?thesis using ra rb yi cf t by simp
qed

text \<open>
  The claim as stated asks only for one nonzero cash flow. A scenario that loses money
  every year (no revenue, insurance of 1000 a year) has an NPV that rises with the
  discount rate.
\<close>

theorem npv_not_decreasing_counterexample:
  "runFinancialModel (loss_scenario\<lparr>r_disc := 0\<rparr>) =
     Inr (projr (runFinancialModel (loss_scenario\<lparr>r_disc := 0\<rparr>))) \<and>
   runFinancialModel (loss_scenario\<lparr>r_disc := 100\<rparr>) =
     Inr (projr (runFinancialModel (loss_scenario\<lparr>r_disc := 100\<rparr>))) \<and>
   map CF (years (projr (runFinancialModel (loss_scenario\<lparr>r_disc := 0\<rparr>)))) = [- 1000, - 1030] \<and>
   map CF (years (projr (runFinancialModel (loss_scenario\<lparr>r_disc := 100\<rparr>)))) = [- 1000, - 1030] \<and>
   (0::real) < 100 \<and>
   NPV (projr (runFinancialModel (loss_scenario\<lparr>r_disc := 0\<rparr>))) = - 2030 \<and>
   NPV (projr (runFinancialModel (loss_scenario\<lparr>r_disc := 100\<rparr>))) = - 1515 \<and>
   \<not> NPV (projr (runFinancialModel (loss_scenario\<lparr>r_disc := 100\<rparr>)))
       < NPV (projr (runFinancialModel (loss_scenario\<lparr>r_disc := 0\<rparr>)))"
proof -
  let ?a = "loss_scenario\<lparr>r_disc := 0\<rparr>"
  let ?b = "loss_scenario\<lparr>r_disc := 100\<rparr>"
  have ra: "runFinancialModel ?a = Inr (projr (runFinancialModel ?a))"
    by (rule returns_projr) (simp add: loss_scenario_def worked_scenario_def)
  have rb: "runFinancialModel ?b = Inr (projr (runFinancialModel ?b))"
    by (rule returns_projr) (simp add: loss_scenario_def worked_scenario_def)
  show ?thesis
    using ra rb loss_scenario_run [OF ra] loss_scenario_run [OF rb] by simp
qed

subsection \<open>The IRR and the roots of the NPV\<close>

lemma npv_test_two_years:
  assumes "map y_index ys = [0, 1]" and "map CF ys = [a, b]"
  shows "npv_test ys m = a + b / (1 + m)"
proof -
  from assms obtain y0 y1 where ys: "ys = [y0, y1]" by (cases ys; cases "tl ys") auto
  show ?thesis using assms by (simp add: ys npv_test_sum)
qed

lemma irr_loop_example:
  assumes "\<And>m. npv_test ys m = - 73000 + 87600 / (1 + m)"
  shows "irr_loop 100 ys (- (1 / 2)) 2 = (13107 / 65536, 1639 / 8192)"
  by (simp add: assms Let_def numeral_eq_Suc)

lemma irr_loop_invariant:
  assumes "l < h" and "irr_loop k ys l h = (l', h')"
  shows "l \<le> l' \<and> l' < h' \<and> h' \<le> h \<and>
         (l' = l \<or> 0 < npv_test ys l') \<and> (h' = h \<or> npv_test ys h' \<le> 0) \<and>
         (h' - l' < 1 / 10000 \<or> h' - l' = (h - l) / 2 ^ k)"
  using assms
proof (induction k arbitrary: l h)
  case 0
  then show ?case by simp
next
  case (Suc k)
  let ?m = "(l + h) / 2"
  have m: "l < ?m" "?m < h" using Suc.prems(1) by simp_all
  show ?case
  proof (cases "0 < npv_test ys ?m")
    case True
    show ?thesis
    proof (cases "\<bar>h - ?m\<bar> < 1 / 10000")
      case True
      with \<open>0 < npv_test ys ?m\<close> Suc.prems(2) have eq: "l' = ?m" "h' = h"
        by (simp_all add: Let_def)
      have w: "h - ?m < 1 / 10000" using True by linarith
      have "l \<le> ?m" "h \<le> h" using m by simp_all
      then show ?thesis unfolding eq using m(2) \<open>0 < npv_test ys ?m\<close> w by blast
    next
      case False
      with True Suc.prems(2) have "irr_loop k ys ?m h = (l', h')"
        by (simp add: Let_def)
      from Suc.IH [OF m(2) this]
      have ih: "?m \<le> l'" "l' < h'" "h' \<le> h" "l' = ?m \<or> 0 < npv_test ys l'"
        "h' = h \<or> npv_test ys h' \<le> 0"
        "h' - l' < 1 / 10000 \<or> h' - l' = (h - ?m) / 2 ^ k"
        by simp_all
      have e: "(h - ?m) / 2 ^ k = (h - l) / 2 ^ Suc k" by (simp add: field_simps)
      have pos': "0 < npv_test ys l'" using ih(4) True by blast
      have w': "h' - l' < 1 / 10000 \<or> h' - l' = (h - l) / 2 ^ Suc k"
        using ih(6) unfolding e .
      have "l \<le> l'" using ih(1) m(1) by linarith
      then show ?thesis using ih(2,3,5) pos' w' by blast
    qed
  next
    case False
    show ?thesis
    proof (cases "\<bar>?m - l\<bar> < 1 / 10000")
      case True
      with False Suc.prems(2) have eq: "l' = l" "h' = ?m"
        by (simp_all add: Let_def)
      have w: "?m - l < 1 / 10000" using True by linarith
      have np: "npv_test ys ?m \<le> 0" using False by simp
      have "l \<le> l" "?m \<le> h" using m by simp_all
      then show ?thesis unfolding eq using m(1) np w by blast
    next
      case nw: False
      with False Suc.prems(2) have "irr_loop k ys l ?m = (l', h')"
        by (simp add: Let_def)
      from Suc.IH [OF m(1) this]
      have ih: "l \<le> l'" "l' < h'" "h' \<le> ?m" "l' = l \<or> 0 < npv_test ys l'"
        "h' = ?m \<or> npv_test ys h' \<le> 0"
        "h' - l' < 1 / 10000 \<or> h' - l' = (?m - l) / 2 ^ k"
        by simp_all
      have e: "(?m - l) / 2 ^ k = (h - l) / 2 ^ Suc k" by (simp add: field_simps)
      have np: "npv_test ys ?m \<le> 0" using False by simp
      have np': "npv_test ys h' \<le> 0" using ih(5) np by blast
      have w': "h' - l' < 1 / 10000 \<or> h' - l' = (h - l) / 2 ^ Suc k"
        using ih(6) unfolding e .
      have "h' \<le> h" using ih(3) m(2) by linarith
      then show ?thesis using ih(1,2,4) np' w' by blast
    qed
  qed
qed

lemma solve_irr_bracket:
  assumes "solve_irr ys = Some irr"
  shows "\<exists>l' h'. irr = (l' + h') / 2 \<and> - (1 / 2) < l' \<and> l' < h' \<and> h' < 2 \<and>
           h' - l' < 1 / 10000 \<and> 0 < npv_test ys l' \<and> npv_test ys h' \<le> 0"
proof -
  obtain l' h' where e: "irr_loop 100 ys (- (1 / 2)) 2 = (l', h')"
    by (cases "irr_loop 100 ys (- (1 / 2)) 2")
  have c: "\<bar>l' - (- (1 / 2))\<bar> > 1 / 100" "\<bar>h' - 2\<bar> > 1 / 100" "irr = (l' + h') / 2"
    using assms by (auto simp: solve_irr_def e split: if_splits)
  have "- (1 / 2) < (2::real)" by simp
  from irr_loop_invariant [OF this e]
  have inv: "- (1 / 2) \<le> l'" "l' < h'" "h' \<le> 2"
    "l' = - (1 / 2) \<or> 0 < npv_test ys l'" "h' = 2 \<or> npv_test ys h' \<le> 0"
    "h' - l' < 1 / 10000 \<or> h' - l' = (2 - (- (1 / 2))) / 2 ^ 100"
    by simp_all
  have "(2 - (- (1 / 2))) / 2 ^ 100 < (1 / 10000 :: real)" by simp
  then have w: "h' - l' < 1 / 10000" using inv(6) by auto
  have "l' \<noteq> - (1 / 2)" "h' \<noteq> 2" using c by auto
  then have "- (1 / 2) < l'" "h' < 2" "0 < npv_test ys l'" "npv_test ys h' \<le> 0"
    using inv by auto
  then show ?thesis using c(3) inv(2) w by blast
qed

lemma continuous_on_npv_test:
  assumes "\<forall>r\<in>S. 0 < 1 + r"
  shows "continuous_on S (npv_test ys)"
proof -
  have "continuous_on S (\<lambda>r. \<Sum>yr\<leftarrow>ys. CF yr / (1 + r) ^ y_index yr)"
  proof (induction ys)
    case Nil
    then show ?case by simp
  next
    case (Cons y ys)
    have "continuous_on S (\<lambda>r. CF y / (1 + r) ^ y_index y)"
      using assms by (intro continuous_intros) auto
    then show ?case using Cons.IH by (simp add: continuous_on_add)
  qed
  moreover have "npv_test ys = (\<lambda>r. \<Sum>yr\<leftarrow>ys. CF yr / (1 + r) ^ y_index yr)"
    by (rule ext) (rule npv_test_sum)
  ultimately show ?thesis by simp
qed

lemma solve_irr_near_root:
  assumes "solve_irr ys = Some irr"
  shows "\<exists>rate. \<bar>rate - irr\<bar> < 1 / 10000 \<and> - (1 / 2) < rate \<and> rate < 2 \<and>
           (\<Sum>yr\<leftarrow>ys. CF yr / (1 + rate) ^ y_index yr) = 0"
proof -
  obtain l' h' where b: "irr = (l' + h') / 2" "- (1 / 2) < l'" "l' < h'" "h' < 2"
    "h' - l' < 1 / 10000" "0 < npv_test ys l'" "npv_test ys h' \<le> 0"
    using solve_irr_bracket [OF assms] by blast
  have "\<forall>r\<in>{l'..h'}. 0 < 1 + r" using b(2) by auto
  then have "continuous_on {l'..h'} (npv_test ys)" by (rule continuous_on_npv_test)
  moreover have "npv_test ys h' \<le> 0" "0 \<le> npv_test ys l'" "l' \<le> h'" using b by simp_all
  ultimately obtain rate where r: "l' \<le> rate" "rate \<le> h'" "npv_test ys rate = 0"
    using IVT2' [of "npv_test ys" h' 0 l'] by blast
  have "rate - (l' + h') / 2 < 1 / 10000" using r(1,2) b(3,5) by argo
  moreover have "(l' + h') / 2 - rate < 1 / 10000" using r(1,2) b(3,5) by argo
  ultimately have "rate - irr < 1 / 10000" "irr - rate < 1 / 10000"
    unfolding b(1) by simp_all
  then have "\<bar>rate - irr\<bar> < 1 / 10000" unfolding abs_less_iff by argo
  moreover have "- (1 / 2) < rate" "rate < 2" using r b by simp_all
  ultimately show ?thesis using r(3) by (auto simp: npv_test_sum)
qed

lemma irr_scenario_run:
  assumes "runFinancialModel irr_scenario = Inr res"
  shows "map y_index (years res) = [0, 1] \<and> map CF (years res) = [- 73000, 87600] \<and>
         IRR res = Some (26219 / 131072)"
proof -
  let ?w = "irr_scenario"
  have T: "T_project ?w = 1" by (simp add: irr_scenario_def worked_scenario_def)
  have uc: "unit_capex res = [160600]"
    by (simp add: runFinancialModel_fields(1,2) [OF assms] irr_scenario_def
        worked_scenario_def unit_capex_loop_def)
  have ads: "annual_debt_service res = 0"
    by (simp add: runFinancialModel_fields(5) [OF assms] irr_scenario_def
        worked_scenario_def debt_service_no_principal)
  have cf0: "CF (year_values ?w [160600] 0 0 c) = - 73000" for c
    by (simp add: year_values_def Let_def irr_scenario_def worked_scenario_def
        capex_of_year_def capex_entry_def W_tipped_def)
  have cf1: "CF (year_values ?w [160600] 0 (Suc 0) c) = 87600" for c
    by (simp add: year_values_def Let_def irr_scenario_def worked_scenario_def
        capex_of_year_def capex_entry_def W_tipped_def)
  have yi: "map y_index (years res) = [0, 1]"
    using years_y_index [OF assms] by (simp only: T year_indices_1)
  have "map CF (years res) = map (\<lambda>y. CF (year_values ?w [160600] 0 y 0)) [0, 1]"
    using years_map [OF assms, of CF "\<lambda>y. CF (year_values ?w [160600] 0 y 0)"]
      CF_year_values_indep [of ?w "[160600]" 0]
    by (simp only: T year_indices_1 uc ads)
  then have mc: "map CF (years res) = [- 73000, 87600]" by (simp add: cf0 cf1)
  have "npv_test (years res) m = - 73000 + 87600 / (1 + m)" for m
    using yi mc by (rule npv_test_two_years)
  then have "irr_loop 100 (years res) (- (1 / 2)) 2 = (13107 / 65536, 1639 / 8192)"
    by (rule irr_loop_example)
  then have "solve_irr (years res) = Some (26219 / 131072)"
    by (simp add: solve_irr_def)
  then have irr: "IRR res = Some (26219 / 131072)"
    by (simp only: runFinancialModel_fields(11) [OF assms])
  show ?thesis using yi mc irr by simp
qed

lemma sum_two_years:
  fixes ys :: "year_record list"
  assumes "map y_index ys = [0, 1]" and "map CF ys = [a, b]"
  shows "(\<Sum>yr\<leftarrow>ys. CF yr / (1 + m) ^ y_index yr) = a + b / (1 + m)"
  using npv_test_two_years [OF assms, of m] by (simp add: npv_test_sum)

text \<open>
  C3 (as amended). When the IRR is not null, there is a rate within the solver's tolerance
  (1e-4) of the IRR, inside the search interval, at which the NPV formula
  \<open>\<Sum> CF[y] / (1 + rate) ^ y\<close> over the same cash-flow sequence is exactly zero: the
  tolerance bounds the rate, not the value of the NPV.
\<close>

theorem irr_is_near_a_root:
  assumes "runFinancialModel inp = Inr res" and "IRR res = Some irr"
  shows "\<exists>rate. \<bar>rate - irr\<bar> < 1 / 10000 \<and> - (1 / 2) < rate \<and> rate < 2 \<and>
           (\<Sum>yr\<leftarrow>years res. CF yr / (1 + rate) ^ y_index yr) = 0"
  using assms(2) unfolding runFinancialModel_fields(11) [OF assms(1)]
  by (rule solve_irr_near_root)

theorem irr_is_near_a_root_witness:
  "runFinancialModel irr_scenario = Inr (projr (runFinancialModel irr_scenario)) \<and>
   IRR (projr (runFinancialModel irr_scenario)) = Some (26219 / 131072) \<and>
   (\<exists>rate. \<bar>rate - 26219 / 131072\<bar> < 1 / 10000 \<and> - (1 / 2) < rate \<and> rate < 2 \<and>
      (\<Sum>yr\<leftarrow>years (projr (runFinancialModel irr_scenario)).
         CF yr / (1 + rate) ^ y_index yr) = 0) \<and>
   \<bar>1 / 5 - 26219 / 131072 :: real\<bar> < 1 / 10000 \<and>
   (\<Sum>yr\<leftarrow>years (projr (runFinancialModel irr_scenario)).
      CF yr / (1 + 1 / 5) ^ y_index yr) = 0"
proof -
  let ?res = "projr (runFinancialModel irr_scenario)"
  have r: "runFinancialModel irr_scenario = Inr ?res"
    by (rule returns_projr) (simp add: irr_scenario_def worked_scenario_def)
  note t = irr_scenario_run [OF r]
  then have i: "IRR ?res = Some (26219 / 131072)" by simp
  note e = irr_is_near_a_root [OF r i]
  have s: "(\<Sum>yr\<leftarrow>years ?res. CF yr / (1 + 1 / 5) ^ y_index yr) = 0"
    using sum_two_years [of "years ?res" "- 73000" 87600 "1 / 5"] t by simp
  have a: "\<bar>1 / 5 - 26219 / 131072 :: real\<bar> < 1 / 10000" by simp
  show ?thesis using r i e s a by (simp only: simp_thms)
qed

text \<open>
  The claim as stated bounds the NPV at the IRR by 1e-4. With a capital cost of 160,600
  the cash flows are -73,000 and 87,600, the true rate is 0.2, the solver returns
  26219/131072 and the NPV there is about -2.13.
\<close>

theorem irr_npv_not_within_tolerance_counterexample:
  "runFinancialModel irr_scenario = Inr (projr (runFinancialModel irr_scenario)) \<and>
   map CF (years (projr (runFinancialModel irr_scenario))) = [- 73000, 87600] \<and>
   IRR (projr (runFinancialModel irr_scenario)) = Some (26219 / 131072) \<and>
   (\<Sum>yr\<leftarrow>years (projr (runFinancialModel irr_scenario)).
      CF yr / (1 + 26219 / 131072) ^ y_index yr) = - (335800 / 157291) \<and>
   \<not> \<bar>\<Sum>yr\<leftarrow>years (projr (runFinancialModel irr_scenario)).
      CF yr / (1 + 26219 / 131072) ^ y_index yr\<bar> < 1 / 10000"
proof -
  let ?res = "projr (runFinancialModel irr_scenario)"
  have r: "runFinancialModel irr_scenario = Inr ?res"
    by (rule returns_projr) (simp add: irr_scenario_def worked_scenario_def)
  note t = irr_scenario_run [OF r]
  have s: "(\<Sum>yr\<leftarrow>years ?res. CF yr / (1 + 26219 / 131072) ^ y_index yr)
      = - (335800 / 157291)"
    using sum_two_years [of "years ?res" "- 73000" 87600 "26219 / 131072"] t by simp
  have "\<not> \<bar>- (335800 / 157291) :: real\<bar> < 1 / 10000" by simp
  then show ?thesis using r t by (simp only: s simp_thms)
qed

end
